theory Spec2Isabelle
  imports Main "HOL-Library.Sublist" "HOL-Library.Char_ord" "HOL-Library.List_Lexorder"
    "HOL-Library.Multiset"
begin

section \<open>Data model\<close>

text \<open>
  The relational store of the backend (tables \<^verbatim>\<open>conversations\<close> and \<^verbatim>\<open>messages\<close> of the
  migrations). Identifiers and text are strings, timestamps are milliseconds since the
  epoch. The field \<^verbatim>\<open>id\<close> of the source is written \<open>msg_id\<close> and \<open>conv_id\<close>.
  The row order of a table is the order of the list.
\<close>

datatype role = User | Assistant

record message =
  msg_id :: string
  conversationId :: string
  role :: role
  content :: string
  createdAt :: int

record conversation =
  conv_id :: string
  title :: string
  displayIndex :: int
  conv_createdAt :: int
  lastMessageAt :: "int option"

record store =
  conversations :: "conversation list"
  messages :: "message list"

section \<open>Store queries\<close>

text \<open>
  \<^verbatim>\<open>orderBy: { createdAt: 'asc' | 'desc' }\<close> sorts on the timestamp only: the query names
  no second sort key. The SQLite store of the migrations then returns rows with equal
  timestamps in their row order on an ascending read, and a descending read returns the
  rows of the ascending one backwards, so rows with equal timestamps come in the reverse
  of their row order.
\<close>

definition orderBy_createdAt_asc :: "message list \<Rightarrow> message list" where
  "orderBy_createdAt_asc ms = sort_key createdAt ms"

definition orderBy_createdAt_desc :: "message list \<Rightarrow> message list" where
  "orderBy_createdAt_desc ms = rev (sort_key createdAt ms)"

definition first_row :: "'a list \<Rightarrow> 'a option" where
  "first_row rows = (case rows of [] \<Rightarrow> None | r # _ \<Rightarrow> Some r)"

definition conversation_findUnique :: "store \<Rightarrow> string \<Rightarrow> conversation option" where
  "conversation_findUnique s i = find (\<lambda>c. conv_id c = i) (conversations s)"

definition message_findUnique :: "store \<Rightarrow> string \<Rightarrow> message option" where
  "message_findUnique s i = find (\<lambda>m. msg_id m = i) (messages s)"

text \<open>The \<^verbatim>\<open>where\<close> clause of the duplicate search (routes/messages.ts, lines 56-63).\<close>

definition duplicate_of :: "string \<Rightarrow> role \<Rightarrow> string \<Rightarrow> int \<Rightarrow> message \<Rightarrow> bool" where
  "duplicate_of cid r txt since m \<longleftrightarrow>
     conversationId m = cid \<and> role m = r \<and> content m = txt \<and> since \<le> createdAt m"

definition message_findFirst_duplicate ::
  "store \<Rightarrow> string \<Rightarrow> role \<Rightarrow> string \<Rightarrow> int \<Rightarrow> message option" where
  "message_findFirst_duplicate s cid r txt since =
     first_row (orderBy_createdAt_desc (filter (duplicate_of cid r txt since) (messages s)))"

definition message_create :: "store \<Rightarrow> message \<Rightarrow> store" where
  "message_create s m = s\<lparr>messages := messages s @ [m]\<rparr>"

definition conversation_update_lastMessageAt :: "store \<Rightarrow> string \<Rightarrow> int \<Rightarrow> store" where
  "conversation_update_lastMessageAt s cid t =
     s\<lparr>conversations :=
         map (\<lambda>c. if conv_id c = cid then c\<lparr>lastMessageAt := Some t\<rparr> else c) (conversations s)\<rparr>"

section \<open>Provider adapter\<close>

text \<open>
  An error thrown by the HTTP client: whether \<^verbatim>\<open>axios.isCancel\<close> holds of it, its
  \<^verbatim>\<open>message\<close>, and the status of \<^verbatim>\<open>error.response\<close> when a response was received.
\<close>

record js_error =
  is_cancel :: bool
  err_message :: string
  response_status :: "nat option"

text \<open>\<^verbatim>\<open>s.includes(sub)\<close> of JavaScript.\<close>

fun str_includes :: "string \<Rightarrow> string \<Rightarrow> bool" where
  "str_includes [] sub = (sub = [])"
| "str_includes (c # cs) sub = (prefix sub (c # cs) \<or> str_includes cs sub)"

text \<open>
  The test both adapters apply in the \<^verbatim>\<open>catch\<close> of \<^verbatim>\<open>complete\<close> (lib/llmAdapter, printed in
  routes/messages.ts at lines 431-461 and 509-537): an axios
  cancellation, or any error whose message contains \<^verbatim>\<open>aborted\<close>.
\<close>

definition cancellation :: "js_error \<Rightarrow> bool" where
  "cancellation e \<longleftrightarrow> is_cancel e \<or> str_includes (err_message e) ''aborted''"

definition request_aborted :: js_error where
  "request_aborted = \<lparr>is_cancel = False, err_message = ''Request aborted'', response_status = None\<rparr>"

text \<open>
  \<^verbatim>\<open>complete\<close> of the mock and of the Ollama adapter, given what \<^verbatim>\<open>client.post\<close> gave:
  \<open>Inr body\<close> is a 2xx response whose completion field is \<open>body\<close> (\<open>None\<close> when
  the field is missing), \<open>Inl e\<close> a rejection.
\<close>

definition adapter_complete :: "js_error + string option \<Rightarrow> js_error + string" where
  "adapter_complete r =
     (case r of
        Inr body \<Rightarrow> Inr (case body of Some c \<Rightarrow> c | None \<Rightarrow> '''')
      | Inl e \<Rightarrow> if cancellation e then Inl request_aborted else Inl e)"

section \<open>Send pipeline\<close>

text \<open>
  POST /api/conversations/:id/messages (routes/messages.ts, lines 16-181). The store
  calls are taken to succeed: an exception of the store client, which the outer
  \<^verbatim>\<open>catch\<close> answers with 500, is not part of the model.
\<close>

record send_body =
  body_content :: string
  body_role :: "role option"
  existingMessageId :: "string option"

text \<open>
  What one run reads from outside the store: the clock at the duplicate search, the
  identifier and timestamp the store gives a created user message and a created reply,
  and the clock at the final update.
\<close>

record send_env =
  date_now :: int
  user_id :: string
  user_createdAt :: int
  reply_id :: string
  reply_createdAt :: int
  update_now :: int

datatype response =
    BadRequest
  | NotFound
  | RequestCancelled
  | LlmUnavailable string
  | Created message message

fun status_code :: "response \<Rightarrow> nat" where
  "status_code BadRequest = 400"
| "status_code NotFound = 404"
| "status_code RequestCancelled = 499"
| "status_code (LlmUnavailable _) = 502"
| "status_code (Created _ _) = 201"

text \<open>\<^verbatim>\<open>sendMessageSchema\<close>: content of 1 to 10000 characters, role defaulting to user.\<close>

definition sendMessageSchema_ok :: "send_body \<Rightarrow> bool" where
  "sendMessageSchema_ok b \<longleftrightarrow> 1 \<le> length (body_content b) \<and> length (body_content b) \<le> 10000"

definition parsed_role :: "send_body \<Rightarrow> role" where
  "parsed_role b = (case body_role b of None \<Rightarrow> User | Some r \<Rightarrow> r)"

text \<open>
  Lines 35-49: the lookup by \<^verbatim>\<open>existingMessageId\<close>. The guard \<^verbatim>\<open>if (body.existingMessageId)\<close>
  is false for a missing and for an empty string.
\<close>

definition lookup_existing :: "store \<Rightarrow> send_body \<Rightarrow> message option" where
  "lookup_existing s b =
     (case existingMessageId b of
        None \<Rightarrow> None
      | Some i \<Rightarrow> if i = [] then None else message_findUnique s i)"

text \<open>Lines 33-88: the user message of the request and the store after it.\<close>

definition resolve_user_message ::
  "send_env \<Rightarrow> store \<Rightarrow> string \<Rightarrow> send_body \<Rightarrow> message \<times> store" where
  "resolve_user_message e s cid b =
     (case lookup_existing s b of
        Some existingMessage \<Rightarrow> (existingMessage, s)
      | None \<Rightarrow>
          (let fiveMinutesAgo = date_now e - 5 * 60 * 1000 in
           case message_findFirst_duplicate s cid (parsed_role b) (body_content b) fiveMinutesAgo of
             Some duplicateMessage \<Rightarrow> (duplicateMessage, s)
           | None \<Rightarrow>
               (let created = \<lparr>msg_id = user_id e, conversationId = cid, role = parsed_role b,
                                content = body_content b, createdAt = user_createdAt e\<rparr>
                in (created, message_create s created))))"

text \<open>Lines 96-111: the rows of the history query, and the history sent to the provider.\<close>

definition history_rows :: "store \<Rightarrow> string \<Rightarrow> message list" where
  "history_rows s cid = orderBy_createdAt_asc (filter (\<lambda>m. conversationId m = cid) (messages s))"

definition history :: "store \<Rightarrow> string \<Rightarrow> (role \<times> string) list" where
  "history s cid = map (\<lambda>m. (role m, content m)) (history_rows s cid)"

text \<open>
  The whole handler. \<open>adapter\<close> is \<open>Inl e\<close> when \<^verbatim>\<open>createLlmAdapter()\<close> throws \<open>e\<close>
  (a missing or unknown configuration), and otherwise \<open>Inr post\<close>, the outcome of the
  adapter's \<^verbatim>\<open>client.post\<close> as a function of the history.
\<close>

definition send_message ::
  "send_env \<Rightarrow> (js_error + ((role \<times> string) list \<Rightarrow> js_error + string option)) \<Rightarrow>
     store \<Rightarrow> string \<Rightarrow> send_body \<Rightarrow> response \<times> store" where
  "send_message e adapter s cid b =
     (if \<not> sendMessageSchema_ok b then (BadRequest, s)
      else case conversation_findUnique s cid of
        None \<Rightarrow> (NotFound, s)
      | Some _ \<Rightarrow>
          (let (userMessage, s1) = resolve_user_message e s cid b;
               completion = (case adapter of
                               Inl err \<Rightarrow> Inl err
                             | Inr post \<Rightarrow> adapter_complete (post (history s1 cid)))
           in case completion of
                Inl err \<Rightarrow>
                  if str_includes (err_message err) ''aborted'' then (RequestCancelled, s1)
                  else (LlmUnavailable (msg_id userMessage), s1)
              | Inr llmResponse \<Rightarrow>
                  (let assistantMessage =
                         \<lparr>msg_id = reply_id e, conversationId = cid, role = Assistant,
                          content = llmResponse, createdAt = reply_createdAt e\<rparr>;
                       s2 = message_create s1 assistantMessage;
                       s3 = conversation_update_lastMessageAt s2 cid (update_now e)
                   in (Created userMessage assistantMessage, s3))))"

section \<open>Conversation creation\<close>

text \<open>
  A number in a template literal (\<^verbatim>\<open>`Conversation #${nextDisplayIndex}`\<close>): its decimal
  digits, with a minus sign when it is negative. The counter is held as an
  unbounded integer: it starts at 1 and grows by one, and stays far below the size at
  which the language rounds a number or prints it in exponent form.
\<close>

definition digit_char :: "nat \<Rightarrow> char" where
  "digit_char d = ''0123456789'' ! d"

function show_nat :: "nat \<Rightarrow> string" where
  "show_nat n = (if n < 10 then [digit_char n] else show_nat (n div 10) @ [digit_char (n mod 10)])"
  by pat_completeness auto
termination
  by (relation "measure (\<lambda>n. n)") auto

definition show_int :: "int \<Rightarrow> string" where
  "show_int i = (if i < 0 then CHR ''-'' # show_nat (nat (- i)) else show_nat (nat i))"

text \<open>POST /api/conversations (routes/conversations.ts, lines 21-64).\<close>

record create_body =
  body_title :: "string option"

text \<open>The identifier and creation time the store gives the new row.\<close>

record create_env =
  new_id :: string
  new_createdAt :: int

datatype create_response =
    ConversationCreated conversation
  | CreateBadRequest
  | CreateInternalError

definition createConversationSchema_ok :: "create_body \<Rightarrow> bool" where
  "createConversationSchema_ok b \<longleftrightarrow>
     (case body_title b of None \<Rightarrow> True | Some t \<Rightarrow> 1 \<le> length t \<and> length t \<le> 200)"

text \<open>
  \<^verbatim>\<open>findFirst({ orderBy: { displayIndex: 'desc' }, select: { displayIndex: true } })\<close>.
\<close>

definition maxConversation :: "store \<Rightarrow> int option" where
  "maxConversation s =
     first_row (map displayIndex (sort_key (\<lambda>c. - displayIndex c) (conversations s)))"

text \<open>
  \<^verbatim>\<open>conversation.create\<close>. The table has a unique index on \<^verbatim>\<open>displayIndex\<close>
  (migration 20251106062129_add_display_index): an insert that repeats a value fails,
  and the handler answers 500.
\<close>

definition conversation_create :: "store \<Rightarrow> conversation \<Rightarrow> store option" where
  "conversation_create s c =
     (if displayIndex c \<in> set (map displayIndex (conversations s)) then None
      else Some (s\<lparr>conversations := conversations s @ [c]\<rparr>))"

text \<open>
  The handler reads the largest counter and then inserts, in two store operations. Requests
  are served concurrently, so another request may write between the two: \<open>seen\<close> is the
  store the read saw, \<open>s\<close> the store the insert meets.
\<close>

definition create_conversation_at ::
  "create_env \<Rightarrow> store \<Rightarrow> store \<Rightarrow> create_body \<Rightarrow> create_response \<times> store" where
  "create_conversation_at e seen s b =
     (if \<not> createConversationSchema_ok b then (CreateBadRequest, s)
      else
        (let nextDisplayIndex = (case maxConversation seen of Some d \<Rightarrow> d + 1 | None \<Rightarrow> 1);
             new_title = (case body_title b of
                            Some t \<Rightarrow> t
                          | None \<Rightarrow> ''Conversation #'' @ show_int nextDisplayIndex);
             created = \<lparr>conv_id = new_id e, title = new_title, displayIndex = nextDisplayIndex,
                        conv_createdAt = new_createdAt e, lastMessageAt = None\<rparr>
         in case conversation_create s created of
              None \<Rightarrow> (CreateInternalError, s)
            | Some s' \<Rightarrow> (ConversationCreated created, s')))"

text \<open>A creation that no other request interleaves with.\<close>

definition create_conversation ::
  "create_env \<Rightarrow> store \<Rightarrow> create_body \<Rightarrow> create_response \<times> store" where
  "create_conversation e s b = create_conversation_at e s s b"

text \<open>
  DELETE /api/conversations/:id (routes/conversations.ts, lines 193-221): the row is
  removed and, by the cascading foreign key, so are its messages.
\<close>

datatype delete_response = Deleted | DeleteNotFound

definition delete_conversation :: "store \<Rightarrow> string \<Rightarrow> delete_response \<times> store" where
  "delete_conversation s cid =
     (case conversation_findUnique s cid of
        None \<Rightarrow> (DeleteNotFound, s)
      | Some _ \<Rightarrow>
          (Deleted,
           \<lparr>conversations = filter (\<lambda>c. conv_id c \<noteq> cid) (conversations s),
            messages = filter (\<lambda>m. conversationId m \<noteq> cid) (messages s)\<rparr>))"

section \<open>HTTP client with retries\<close>

text \<open>
  \<^verbatim>\<open>createHttpClient\<close> (lib/llmAdapter, printed in routes/messages.ts at lines 380-416): an
  axios client with a timeout of 12000 ms (the
  comment reads "12s timeout"), given to \<^verbatim>\<open>axiosRetry\<close> with the three options below. All
  times are in milliseconds.
\<close>

definition timeout :: nat where
  "timeout = 12000"

definition retries :: nat where
  "retries = 2"

text \<open>\<^verbatim>\<open>500 * Math.pow(2, retryCount - 1)\<close>; the library calls it with 1, 2, ...\<close>

definition retryDelay :: "nat \<Rightarrow> nat" where
  "retryDelay retryCount = (if retryCount = 0 then 250 else 500 * 2 ^ (retryCount - 1))"

text \<open>\<^verbatim>\<open>!error.response || error.response.status >= 500\<close>.\<close>

definition retryCondition :: "js_error \<Rightarrow> bool" where
  "retryCondition e = (case response_status e of None \<Rightarrow> True | Some st \<Rightarrow> 500 \<le> st)"

text \<open>
  The loop that applies these options is the one of axios and axios-retry, which are
  libraries and not files of the repository; it is written here from their documented
  behaviour. The provider's part in one attempt: it answers after some time with a status
  and a completion field, or the connection fails after some time with a message, or it
  never answers.
\<close>

datatype attempt_behaviour =
    Responds nat nat "string option"
  | Fails nat string
  | Hangs

definition status_error :: "nat \<Rightarrow> js_error" where
  "status_error st = \<lparr>is_cancel = False,
     err_message = ''Request failed with status code '' @ show_nat st,
     response_status = Some st\<rparr>"

definition network_error :: "string \<Rightarrow> js_error" where
  "network_error msg = \<lparr>is_cancel = False, err_message = msg, response_status = None\<rparr>"

definition timeout_error :: "nat \<Rightarrow> js_error" where
  "timeout_error t = \<lparr>is_cancel = False,
     err_message = ''timeout of '' @ show_nat t @ ''ms exceeded'',
     response_status = None\<rparr>"

definition canceled_error :: js_error where
  "canceled_error = \<lparr>is_cancel = True, err_message = ''canceled'', response_status = None\<rparr>"

text \<open>
  One attempt, started at time \<open>t0\<close> with \<open>t\<close> ms of timeout left, under a signal that
  fires at time \<open>a\<close> when \<open>abortAt = Some a\<close>: when it ends and how. A status from 200 to
  299 resolves; any other status, a connection failure and the timeout reject; a signal
  that has fired, or fires before the attempt settles, rejects with a cancellation.
\<close>

definition attempt ::
  "nat option \<Rightarrow> nat \<Rightarrow> nat \<Rightarrow> attempt_behaviour \<Rightarrow> nat \<times> (js_error + string option)" where
  "attempt abortAt t0 t bhv =
     (let settled =
            (case bhv of
               Responds l st body \<Rightarrow>
                 if l < t then (l, if 200 \<le> st \<and> st < 300 then Inr body else Inl (status_error st))
                 else (t, Inl (timeout_error t))
             | Fails l msg \<Rightarrow>
                 if l < t then (l, Inl (network_error msg)) else (t, Inl (timeout_error t))
             | Hangs \<Rightarrow> (t, Inl (timeout_error t)))
      in case abortAt of
           None \<Rightarrow> (t0 + fst settled, snd settled)
         | Some a \<Rightarrow>
             if a \<le> t0 then (t0, Inl canceled_error)
             else if a < t0 + fst settled then (a, Inl canceled_error)
             else (t0 + fst settled, snd settled))"

text \<open>
  One retry: the error it followed, the delay \<^verbatim>\<open>retryDelay\<close> gave for it, the time the
  failed attempt ended and the time the next attempt started.
\<close>

record retry =
  retry_error :: js_error
  retry_delay :: nat
  failed_at :: nat
  restarted_at :: nat

text \<open>What a call leaves: its outcome, the time it ended, and its retries in order.\<close>

record exec_result =
  outcome :: "js_error + string option"
  finished_at :: nat
  retries_made :: "retry list"

definition settle :: "js_error + string option \<Rightarrow> nat \<Rightarrow> exec_result" where
  "settle r t1 = \<lparr>outcome = r, finished_at = t1, retries_made = []\<rparr>"

text \<open>
  The response interceptor of axios-retry (version 4): a rejected attempt is retried when
  \<^verbatim>\<open>retryCount < retries\<close> and \<^verbatim>\<open>retryCondition(error)\<close> hold. The timeout is not reset between
  retries: it is reduced by the time the attempt took and by the delay, and the error is
  passed on when nothing is left. The next attempt starts when the delay has passed,
  counted from the rejection; a signal that has fired, or fires during the delay, starts
  it at once.
\<close>

definition restart_time :: "nat option \<Rightarrow> nat \<Rightarrow> nat \<Rightarrow> nat" where
  "restart_time abortAt t1 delay =
     (case abortAt of
        None \<Rightarrow> t1 + delay
      | Some a \<Rightarrow> if a \<le> t1 then t1 else min a (t1 + delay))"

function request ::
  "(nat \<Rightarrow> attempt_behaviour) \<Rightarrow> nat option \<Rightarrow> nat \<Rightarrow> nat \<Rightarrow> nat \<Rightarrow> exec_result" where
  "request provider abortAt retryCount t t0 =
     (case attempt abortAt t0 t (provider retryCount) of
        (t1, Inr body) \<Rightarrow> settle (Inr body) t1
      | (t1, Inl err) \<Rightarrow>
          if retryCount < retries \<and> retryCondition err then
            (let delay = retryDelay (retryCount + 1);
                 lastRequestDuration = t1 - t0
             in if t \<le> lastRequestDuration + delay then settle (Inl err) t1
                else
                  (let t2 = restart_time abortAt t1 delay;
                       r = request provider abortAt (retryCount + 1)
                             (t - lastRequestDuration - delay) t2
                   in r\<lparr>retries_made :=
                          \<lparr>retry_error = err, retry_delay = delay, failed_at = t1,
                           restarted_at = t2\<rparr> # retries_made r\<rparr>))
          else settle (Inl err) t1)"
  by pat_completeness auto
termination
  by (relation "measure (\<lambda>(provider, abortAt, retryCount, t, t0). retries - retryCount)") auto

declare request.simps [simp del]

text \<open>\<^verbatim>\<open>client.post\<close>: the first attempt starts at time 0 with the whole timeout.\<close>

definition client_post :: "(nat \<Rightarrow> attempt_behaviour) \<Rightarrow> nat option \<Rightarrow> exec_result" where
  "client_post provider abortAt = request provider abortAt 0 timeout 0"

section \<open>Pagination cursor\<close>

text \<open>
  \<^verbatim>\<open>encodeCursor\<close> and \<^verbatim>\<open>decodeCursor\<close> (utils/pagination, printed in routes/messages.ts at
  lines 239-250) compose three functions of the
  platform: \<^verbatim>\<open>JSON.stringify\<close> and \<^verbatim>\<open>JSON.parse\<close>, the UTF-8 conversion of \<^verbatim>\<open>Buffer\<close>, and its
  \<^verbatim>\<open>base64url\<close> encoding. They are written out here as the language standard and the Node
  documentation describe them. Text is held as its UTF-8 bytes (a \<open>string\<close> is a list
  of 8-bit characters), so the conversion between a text and its bytes is the identity.
\<close>

subsection \<open>base64url\<close>

definition b64_char :: "nat \<Rightarrow> char" where
  "b64_char n =
     (if n < 26 then char_of (65 + n)
      else if n < 52 then char_of (71 + n)
      else if n < 62 then char_of (n - 4)
      else if n = 62 then CHR ''-''
      else CHR ''_'')"

text \<open>\<^verbatim>\<open>buf.toString('base64url')\<close>: three bytes give four characters, without padding.\<close>

fun toString_base64url :: "string \<Rightarrow> string" where
  "toString_base64url [] = []"
| "toString_base64url [a] =
     [b64_char (of_char a div 4), b64_char (of_char a mod 4 * 16)]"
| "toString_base64url [a, b] =
     [b64_char (of_char a div 4), b64_char (of_char a mod 4 * 16 + of_char b div 16),
      b64_char (of_char b mod 16 * 4)]"
| "toString_base64url (a # b # c # bs) =
     [b64_char (of_char a div 4), b64_char (of_char a mod 4 * 16 + of_char b div 16),
      b64_char (of_char b mod 16 * 4 + of_char c div 64), b64_char (of_char c mod 64)]
     @ toString_base64url bs"

text \<open>
  The value of a character of either base64 alphabet; the decoder of Node accepts both.
\<close>

definition unbase64 :: "char \<Rightarrow> nat option" where
  "unbase64 c =
     (let n = of_char c :: nat in
      if 65 \<le> n \<and> n \<le> 90 then Some (n - 65)
      else if 97 \<le> n \<and> n \<le> 122 then Some (n - 71)
      else if 48 \<le> n \<and> n \<le> 57 then Some (n + 4)
      else if c = CHR ''-'' \<or> c = CHR ''+'' then Some 62
      else if c = CHR ''_'' \<or> c = CHR ''/'' then Some 63
      else None)"

fun from_sextets :: "nat list \<Rightarrow> string" where
  "from_sextets (a # b # c # d # rest) =
     [char_of (a * 4 + b div 16), char_of (b mod 16 * 16 + c div 4), char_of (c mod 4 * 64 + d)]
     @ from_sextets rest"
| "from_sextets [a, b, c] = [char_of (a * 4 + b div 16), char_of (b mod 16 * 16 + c div 4)]"
| "from_sextets [a, b] = [char_of (a * 4 + b div 16)]"
| "from_sextets _ = []"

text \<open>
  \<^verbatim>\<open>Buffer.from(cursor, 'base64url')\<close> never throws: it stops at the first \<^verbatim>\<open>=\<close>, skips every
  character outside the alphabets and decodes what is left.
\<close>

definition from_base64url :: "string \<Rightarrow> string" where
  "from_base64url s = from_sextets (List.map_filter unbase64 (takeWhile (\<lambda>c. c \<noteq> CHR ''='') s))"

subsection \<open>JSON\<close>

datatype json =
    JNull
  | JBool bool
  | JNumber string
  | JString string
  | JArray "json list"
  | JObject "(string \<times> json) list"

abbreviation dquote :: char where
  "dquote \<equiv> CHR 0x22"

abbreviation backslash :: char where
  "backslash \<equiv> CHR 0x5C"

definition hex_digit :: "nat \<Rightarrow> char" where
  "hex_digit d = ''0123456789abcdef'' ! d"

definition hex_value :: "char \<Rightarrow> nat option" where
  "hex_value c =
     (let n = of_char c :: nat in
      if 48 \<le> n \<and> n \<le> 57 then Some (n - 48)
      else if 97 \<le> n \<and> n \<le> 102 then Some (n - 87)
      else if 65 \<le> n \<and> n \<le> 70 then Some (n - 55)
      else None)"

text \<open>
  \<^verbatim>\<open>JSON.stringify\<close> of a string: the quote, the backslash and the control characters are
  escaped, every other character stands for itself.
\<close>

definition json_escape :: "char \<Rightarrow> string" where
  "json_escape c =
     (if c = dquote then [backslash, dquote]
      else if c = backslash then [backslash, backslash]
      else if c = CHR 0x08 then [backslash, CHR ''b'']
      else if c = CHR 0x09 then [backslash, CHR ''t'']
      else if c = CHR 0x0A then [backslash, CHR ''n'']
      else if c = CHR 0x0C then [backslash, CHR ''f'']
      else if c = CHR 0x0D then [backslash, CHR ''r'']
      else if (of_char c :: nat) < 32 then
        [backslash, CHR ''u'', CHR ''0'', CHR ''0'',
         hex_digit (of_char c div 16), hex_digit (of_char c mod 16)]
      else [c])"

definition json_quote :: "string \<Rightarrow> string" where
  "json_quote s = dquote # concat (map json_escape s) @ [dquote]"

text \<open>\<^verbatim>\<open>CursorData\<close>, with the field \<^verbatim>\<open>id\<close> written \<open>cursor_id\<close>.\<close>

record CursorData =
  cursor_id :: string
  cursor_createdAt :: string

text \<open>\<^verbatim>\<open>JSON.stringify(data)\<close> for \<^verbatim>\<open>data: CursorData\<close>.\<close>

definition JSON_stringify :: "CursorData \<Rightarrow> string" where
  "JSON_stringify d =
     CHR ''{'' # json_quote ''id'' @ CHR '':'' # json_quote (cursor_id d) @
     CHR '','' # json_quote ''createdAt'' @ CHR '':'' # json_quote (cursor_createdAt d) @ ''}''"

text \<open>
  \<^verbatim>\<open>JSON.parse\<close>. White space is space, tab, line feed and carriage return.
\<close>

definition is_ws :: "char \<Rightarrow> bool" where
  "is_ws c \<longleftrightarrow> c = CHR '' '' \<or> c = CHR 0x09 \<or> c = CHR 0x0A \<or> c = CHR 0x0D"

definition skip_ws :: "string \<Rightarrow> string" where
  "skip_ws s = dropWhile is_ws s"

definition is_digit :: "char \<Rightarrow> bool" where
  "is_digit c \<longleftrightarrow> 48 \<le> (of_char c :: nat) \<and> (of_char c :: nat) \<le> 57"

text \<open>
  A \<^verbatim>\<open>\uXXXX\<close> escape names a code unit; its text is the UTF-8 bytes of that code unit
  (the two halves of a surrogate pair are not joined).
\<close>

definition utf8_of :: "nat \<Rightarrow> string" where
  "utf8_of n =
     (if n < 128 then [char_of n]
      else if n < 2048 then [char_of (192 + n div 64), char_of (128 + n mod 64)]
      else [char_of (224 + n div 4096), char_of (128 + n div 64 mod 64), char_of (128 + n mod 64)])"

definition unescape :: "char \<Rightarrow> char option" where
  "unescape e =
     (if e = dquote then Some dquote
      else if e = backslash then Some backslash
      else if e = CHR ''/'' then Some CHR ''/''
      else if e = CHR ''b'' then Some (CHR 0x08)
      else if e = CHR ''f'' then Some (CHR 0x0C)
      else if e = CHR ''n'' then Some (CHR 0x0A)
      else if e = CHR ''r'' then Some (CHR 0x0D)
      else if e = CHR ''t'' then Some (CHR 0x09)
      else None)"

definition hex4 :: "char \<Rightarrow> char \<Rightarrow> char \<Rightarrow> char \<Rightarrow> nat option" where
  "hex4 a b c d =
     (case (hex_value a, hex_value b, hex_value c, hex_value d) of
        (Some w, Some x, Some y, Some z) \<Rightarrow> Some (w * 4096 + x * 256 + y * 16 + z)
      | _ \<Rightarrow> None)"

text \<open>The characters of a string after its opening quote: the text, and what follows the closing quote.\<close>

fun parse_string_body :: "string \<Rightarrow> (string \<times> string) option" where
  "parse_string_body [] = None"
| "parse_string_body (c # cs) =
     (if c = dquote then Some ([], cs)
      else if c = backslash then
        (case cs of
           [] \<Rightarrow> None
         | e # es \<Rightarrow>
             if e = CHR ''u'' then
               (case es of
                  h1 # h2 # h3 # h4 # rest \<Rightarrow>
                    (case hex4 h1 h2 h3 h4 of
                       None \<Rightarrow> None
                     | Some n \<Rightarrow> map_option (\<lambda>(str, r). (utf8_of n @ str, r)) (parse_string_body rest))
                | _ \<Rightarrow> None)
             else
               (case unescape e of
                  None \<Rightarrow> None
                | Some ch \<Rightarrow> map_option (\<lambda>(str, r). (ch # str, r)) (parse_string_body es)))
      else if (of_char c :: nat) < 32 then None
      else map_option (\<lambda>(str, r). (c # str, r)) (parse_string_body cs))"

text \<open>A number is kept as the characters that spell it.\<close>

definition number_int :: "string \<Rightarrow> (string \<times> string) option" where
  "number_int s =
     (case s of
        [] \<Rightarrow> None
      | c # cs \<Rightarrow>
          if c = CHR ''0'' then Some (''0'', cs)
          else if is_digit c then Some (takeWhile is_digit s, dropWhile is_digit s)
          else None)"

definition number_frac :: "string \<Rightarrow> (string \<times> string) option" where
  "number_frac s =
     (case s of
        c # cs \<Rightarrow>
          if c = CHR ''.'' then
            (if takeWhile is_digit cs = [] then None
             else Some (c # takeWhile is_digit cs, dropWhile is_digit cs))
          else Some ([], s)
      | [] \<Rightarrow> Some ([], s))"

definition number_exp :: "string \<Rightarrow> (string \<times> string) option" where
  "number_exp s =
     (case s of
        c # cs \<Rightarrow>
          if c = CHR ''e'' \<or> c = CHR ''E'' then
            (let sign = (case cs of
                           d # ds \<Rightarrow> if d = CHR ''+'' \<or> d = CHR ''-'' then [d] else []
                         | [] \<Rightarrow> []);
                 ds = drop (length sign) cs
             in if takeWhile is_digit ds = [] then None
                else Some (c # sign @ takeWhile is_digit ds, dropWhile is_digit ds))
          else Some ([], s)
      | [] \<Rightarrow> Some ([], s))"

definition parse_number :: "string \<Rightarrow> (string \<times> string) option" where
  "parse_number s =
     (let sign = (case s of c # cs \<Rightarrow> if c = CHR ''-'' then [c] else [] | [] \<Rightarrow> [])
      in case number_int (drop (length sign) s) of
           None \<Rightarrow> None
         | Some (i, r1) \<Rightarrow>
             (case number_frac r1 of
                None \<Rightarrow> None
              | Some (f, r2) \<Rightarrow>
                  (case number_exp r2 of
                     None \<Rightarrow> None
                   | Some (e, r3) \<Rightarrow> Some (sign @ i @ f @ e, r3))))"

lemma skip_ws_shorter: "skip_ws s = c # cs \<Longrightarrow> length cs < length s"
  using length_dropWhile_le[of is_ws s] by (simp add: skip_ws_def)

text \<open>
  A value, the rest of an array after its first bracket, and the rest of an object after
  its first brace. Each answers with what it read and the text that follows. The length
  tests before the recursive calls always hold, since what follows a value is shorter
  than the text the value was read from; they are stated so that the recursion is seen
  to end.
\<close>

function parse_value :: "string \<Rightarrow> (json \<times> string) option"
  and parse_elements :: "string \<Rightarrow> (json list \<times> string) option"
  and parse_members :: "string \<Rightarrow> ((string \<times> json) list \<times> string) option" where
  "parse_value s =
     (case skip_ws s of
        [] \<Rightarrow> None
      | c # cs \<Rightarrow>
          if c = CHR ''{'' then
            (case skip_ws cs of
               [] \<Rightarrow> None
             | d # ds \<Rightarrow>
                 if d = CHR ''}'' then Some (JObject [], ds)
                 else map_option (\<lambda>(ms, r). (JObject ms, r)) (parse_members (d # ds)))
          else if c = CHR ''['' then
            (case skip_ws cs of
               [] \<Rightarrow> None
             | d # ds \<Rightarrow>
                 if d = CHR '']'' then Some (JArray [], ds)
                 else map_option (\<lambda>(vs, r). (JArray vs, r)) (parse_elements (d # ds)))
          else if c = dquote then
            map_option (\<lambda>(str, r). (JString str, r)) (parse_string_body cs)
          else if prefix ''true'' (c # cs) then Some (JBool True, drop 4 (c # cs))
          else if prefix ''false'' (c # cs) then Some (JBool False, drop 5 (c # cs))
          else if prefix ''null'' (c # cs) then Some (JNull, drop 4 (c # cs))
          else map_option (\<lambda>(lexeme, r). (JNumber lexeme, r)) (parse_number (c # cs)))"
| "parse_elements s =
     (case parse_value s of
        None \<Rightarrow> None
      | Some (v, r) \<Rightarrow>
          (case skip_ws r of
             [] \<Rightarrow> None
           | c # cs \<Rightarrow>
               if c = CHR '']'' then Some ([v], cs)
               else if c = CHR '','' \<and> length cs < length s then
                 map_option (\<lambda>(vs, r'). (v # vs, r')) (parse_elements cs)
               else None))"
| "parse_members s =
     (case skip_ws s of
        [] \<Rightarrow> None
      | c # cs \<Rightarrow>
          if c \<noteq> dquote then None
          else
            (case parse_string_body cs of
               None \<Rightarrow> None
             | Some (k, r) \<Rightarrow>
                 (case skip_ws r of
                    [] \<Rightarrow> None
                  | c1 # r1 \<Rightarrow>
                      if c1 = CHR '':'' \<and> length r1 < length s then
                        (case parse_value r1 of
                           None \<Rightarrow> None
                         | Some (v, r2) \<Rightarrow>
                             (case skip_ws r2 of
                                [] \<Rightarrow> None
                              | c2 # r3 \<Rightarrow>
                                  if c2 = CHR ''}'' then Some ([(k, v)], r3)
                                  else if c2 = CHR '','' \<and> length r3 < length s then
                                    map_option (\<lambda>(ms, r'). ((k, v) # ms, r')) (parse_members r3)
                                  else None))
                      else None)))"
  by pat_completeness auto
termination
proof (relation "measure (\<lambda>x. case x of Inl s \<Rightarrow> 2 * length s
                                      | Inr (Inl s) \<Rightarrow> 2 * length s + 1
                                      | Inr (Inr s) \<Rightarrow> 2 * length s + 1)", goal_cases)
  case 1
  then show ?case by simp
next
  case (2 s c cs d ds)
  then show ?case
    using skip_ws_shorter[of s c cs] skip_ws_shorter[of cs d ds] by simp
next
  case (3 s c cs d ds)
  then show ?case
    using skip_ws_shorter[of s c cs] skip_ws_shorter[of cs d ds] by simp
qed simp_all

declare parse_value.simps [simp del] parse_elements.simps [simp del] parse_members.simps [simp del]

definition JSON_parse :: "string \<Rightarrow> json option" where
  "JSON_parse s =
     (case parse_value s of
        None \<Rightarrow> None
      | Some (v, r) \<Rightarrow> if skip_ws r = [] then Some v else None)"

subsection \<open>The cursor\<close>

text \<open>
  What the handler of a page request can meet as an exception: the error of
  \<^verbatim>\<open>decodeCursor\<close>, a \<^verbatim>\<open>TypeError\<close> of the language, and the store client's refusal of a
  malformed query.
\<close>

datatype thrown = InvalidCursorFormat | TypeError | ValidationError

definition encodeCursor :: "CursorData \<Rightarrow> string" where
  "encodeCursor d = toString_base64url (JSON_stringify d)"

text \<open>
  \<^verbatim>\<open>decodeCursor\<close>: what \<^verbatim>\<open>JSON.parse\<close> gives is returned as it is (the cast
  \<^verbatim>\<open>as CursorData\<close> checks nothing at run time); a \<^verbatim>\<open>SyntaxError\<close> becomes
  \<^verbatim>\<open>Error('Invalid cursor format')\<close>.
\<close>

definition decodeCursor :: "string \<Rightarrow> thrown + json" where
  "decodeCursor cursor =
     (case JSON_parse (from_base64url cursor) of
        None \<Rightarrow> Inl InvalidCursorFormat
      | Some v \<Rightarrow> Inr v)"

text \<open>The property \<open>k\<close> of a parsed object; a repeated key holds its last value.\<close>

definition json_field :: "json \<Rightarrow> string \<Rightarrow> json option" where
  "json_field v k = (case v of JObject ms \<Rightarrow> map_of (rev ms) k | _ \<Rightarrow> None)"

section \<open>Paginated message query\<close>

text \<open>
  \<^verbatim>\<open>buildPaginationQuery\<close> and \<^verbatim>\<open>createCursorPagination\<close> (utils/pagination, printed in
  routes/messages.ts at lines 252-308) and GET /api/conversations/:id
  (routes/conversations.ts, lines 91-141).
\<close>

record page =
  items :: "message list"
  nextCursor :: "string option"
  prevCursor :: "string option"
  hasMore :: bool

text \<open>
  The query \<^verbatim>\<open>buildPaginationQuery\<close> returns; \<^verbatim>\<open>orderBy\<close> is \<^verbatim>\<open>{ createdAt: 'desc' }\<close> on both of
  its paths. \<open>q_cursor\<close> is \<open>None\<close> without a \<^verbatim>\<open>cursor\<close> property, and otherwise holds
  what \<^verbatim>\<open>cursorData.id\<close> evaluated to (\<open>None\<close> for \<^verbatim>\<open>undefined\<close>).
\<close>

record pagination_query =
  q_take :: int
  q_cursor :: "json option option"

definition buildPaginationQuery :: "string option \<Rightarrow> int \<Rightarrow> thrown + pagination_query" where
  "buildPaginationQuery cursor limit =
     (let take_clamped = min (max limit 1) 100 in
      case cursor of
        None \<Rightarrow> Inr \<lparr>q_take = take_clamped + 1, q_cursor = None\<rparr>
      | Some c \<Rightarrow>
          if c = [] then Inr \<lparr>q_take = take_clamped + 1, q_cursor = None\<rparr>
          else
            (case decodeCursor c of
               Inl e \<Rightarrow> Inl e
             | Inr cursorData \<Rightarrow>
                 if cursorData = JNull then Inl TypeError
                 else Inr \<lparr>q_take = take_clamped + 1,
                           q_cursor = Some (json_field cursorData ''id'')\<rparr>))"

text \<open>
  \<^verbatim>\<open>message.findMany\<close> with \<^verbatim>\<open>where\<close>, \<^verbatim>\<open>take\<close>, \<^verbatim>\<open>cursor\<close> and \<^verbatim>\<open>orderBy\<close>. The store client
  (not a file of the repository) reads the conversation's rows in descending order and,
  given a cursor, passes over them until it meets the row with the cursor's identifier:
  the rows returned are that row and those after it, and none when no row of the
  conversation has the identifier. A cursor whose \<^verbatim>\<open>id\<close> is not a string is refused.
\<close>

definition message_findMany_page :: "store \<Rightarrow> string \<Rightarrow> pagination_query \<Rightarrow> thrown + message list" where
  "message_findMany_page s cid q =
     (let rows = orderBy_createdAt_desc (filter (\<lambda>m. conversationId m = cid) (messages s)) in
      case q_cursor q of
        None \<Rightarrow> Inr (take (nat (q_take q)) rows)
      | Some (Some (JString i)) \<Rightarrow>
          Inr (take (nat (q_take q)) (dropWhile (\<lambda>m. msg_id m \<noteq> i) rows))
      | Some _ \<Rightarrow> Inl ValidationError)"

text \<open>\<^verbatim>\<open>items.slice(0, limit)\<close>: a negative end counts from the end of the array.\<close>

definition slice_from_0 :: "'a list \<Rightarrow> int \<Rightarrow> 'a list" where
  "slice_from_0 xs e = (if 0 \<le> e then take (nat e) xs else take (nat (int (length xs) + e)) xs)"

text \<open>
  \<^verbatim>\<open>createCursorPagination\<close>. \<open>toISOString\<close> stands for \<^verbatim>\<open>Date.prototype.toISOString\<close>.
\<close>

definition createCursorPagination :: "(int \<Rightarrow> string) \<Rightarrow> message list \<Rightarrow> int \<Rightarrow> page" where
  "createCursorPagination toISOString rows limit =
     (let more_rows = limit < int (length rows);
          resultItems = (if more_rows then slice_from_0 rows limit else rows);
          cursor_of = (\<lambda>m. encodeCursor \<lparr>cursor_id = msg_id m,
                                          cursor_createdAt = toISOString (createdAt m)\<rparr>)
      in \<lparr>items = resultItems,
          nextCursor = (if more_rows \<and> resultItems \<noteq> [] then Some (cursor_of (last resultItems))
                        else None),
          prevCursor = (if resultItems \<noteq> [] then Some (cursor_of (hd resultItems)) else None),
          hasMore = more_rows\<rparr>)"

datatype get_response =
    GetOk conversation page
  | GetNotFound
  | GetInternalError

text \<open>
  The handler. \<open>limit_param\<close> is \<^verbatim>\<open>parseInt(req.query.limit)\<close>, \<open>None\<close> when that is
  \<^verbatim>\<open>NaN\<close>; \<^verbatim>\<open>|| 20\<close> replaces \<^verbatim>\<open>NaN\<close> and 0 by 20. Every exception ends in the handler's
  \<^verbatim>\<open>catch\<close>, which answers 500.
\<close>

definition get_conversation ::
  "(int \<Rightarrow> string) \<Rightarrow> store \<Rightarrow> string \<Rightarrow> string option \<Rightarrow> int option \<Rightarrow> get_response" where
  "get_conversation toISOString s cid cursor limit_param =
     (let limit = (case limit_param of None \<Rightarrow> 20 | Some n \<Rightarrow> if n = 0 then 20 else n) in
      case conversation_findUnique s cid of
        None \<Rightarrow> GetNotFound
      | Some conv \<Rightarrow>
          (case buildPaginationQuery cursor limit of
             Inl e \<Rightarrow> GetInternalError
           | Inr paginationQuery \<Rightarrow>
               (case message_findMany_page s cid paginationQuery of
                  Inl e \<Rightarrow> GetInternalError
                | Inr rows \<Rightarrow> GetOk conv (createCursorPagination toISOString rows limit))))"

section \<open>Client\<close>

text \<open>
  \<^verbatim>\<open>useChatConversation\<close> (unnamed/part_001, lines 301-307): the list shown is a copy of the
  cached items, sorted with the comparator
  \<^verbatim>\<open>new Date(a.createdAt).getTime() - new Date(b.createdAt).getTime()\<close>. The sort of the
  language is stable.
\<close>

definition displayed_messages :: "message list \<Rightarrow> message list" where
  "displayed_messages cached = sort_key createdAt cached"

section \<open>The order of the specification\<close>

text \<open>
  The order the specification names: by creation timestamp, and by identifier between
  equal timestamps.
\<close>

definition spec_ordered :: "message list \<Rightarrow> bool" where
  "spec_ordered ms \<longleftrightarrow>
     sorted_wrt (\<lambda>a b. createdAt a < createdAt b \<or> (createdAt a = createdAt b \<and> msg_id a \<le> msg_id b)) ms"

section \<open>Example inputs\<close>

text \<open>Concrete stores and requests at which the theorems below are instantiated.\<close>

definition ex_conversation :: conversation where
  "ex_conversation = \<lparr>conv_id = ''c1'', title = ''Conversation #1'', displayIndex = 1,
     conv_createdAt = 0, lastMessageAt = None\<rparr>"

definition ex_other_message :: message where
  "ex_other_message = \<lparr>msg_id = ''m0'', conversationId = ''c0'', role = Assistant,
     content = ''Earlier reply'', createdAt = 500\<rparr>"

definition ex_store :: store where
  "ex_store = \<lparr>conversations = [ex_conversation], messages = [ex_other_message]\<rparr>"

definition ex_env :: send_env where
  "ex_env = \<lparr>date_now = 1000, user_id = ''m1'', user_createdAt = 1001,
     reply_id = ''m2'', reply_createdAt = 2000, update_now = 2001\<rparr>"

definition ex_body :: send_body where
  "ex_body = \<lparr>body_content = ''Hello'', body_role = None, existingMessageId = None\<rparr>"

definition ex_user_message :: message where
  "ex_user_message = \<lparr>msg_id = ''m1'', conversationId = ''c1'', role = User,
     content = ''Hello'', createdAt = 1001\<rparr>"

definition ex_cancel :: js_error where
  "ex_cancel = \<lparr>is_cancel = True, err_message = ''canceled'', response_status = None\<rparr>"

definition ex_http_500 :: js_error where
  "ex_http_500 = \<lparr>is_cancel = False, err_message = ''Request failed with status code 500'',
     response_status = Some 500\<rparr>"

definition ex_reply :: message where
  "ex_reply = \<lparr>msg_id = ''m2'', conversationId = ''c1'', role = Assistant,
     content = ''Hi'', createdAt = 2000\<rparr>"

definition ex_store_after :: store where
  "ex_store_after = \<lparr>conversations = [ex_conversation\<lparr>lastMessageAt := Some 2001\<rparr>],
     messages = [ex_other_message, ex_user_message, ex_reply]\<rparr>"

definition ex_env_retry :: send_env where
  "ex_env_retry = \<lparr>date_now = 61000, user_id = ''m3'', user_createdAt = 61001,
     reply_id = ''m4'', reply_createdAt = 62000, update_now = 62001\<rparr>"

definition ex_body_retry :: send_body where
  "ex_body_retry = \<lparr>body_content = ''Hello'', body_role = None, existingMessageId = Some ''m0''\<rparr>"

definition ex_create_env :: create_env where
  "ex_create_env = \<lparr>new_id = ''c2'', new_createdAt = 3000\<rparr>"

definition ex_second_conversation :: conversation where
  "ex_second_conversation = \<lparr>conv_id = ''c2'', title = ''Conversation #2'', displayIndex = 2,
     conv_createdAt = 3000, lastMessageAt = None\<rparr>"

definition ex_flaky_provider :: "nat \<Rightarrow> attempt_behaviour" where
  "ex_flaky_provider n = (if n < 2 then Fails 3000 ''socket hang up'' else Responds 700 200 (Some ''ok''))"

definition ex_long_store :: store where
  "ex_long_store = \<lparr>conversations = [ex_conversation],
     messages = map (\<lambda>n. \<lparr>msg_id = ''m'' @ show_nat n, conversationId = ''c1'', role = User,
                            content = ''x'', createdAt = int n\<rparr>) [0..<102]\<rparr>"

definition ex_tie_a :: message where
  "ex_tie_a = \<lparr>msg_id = ''a'', conversationId = ''c1'', role = User, content = ''first'', createdAt = 5\<rparr>"

definition ex_tie_b :: message where
  "ex_tie_b = \<lparr>msg_id = ''b'', conversationId = ''c1'', role = Assistant, content = ''second'', createdAt = 5\<rparr>"

section \<open>Properties of the send pipeline\<close>

lemma sort_key_first_min:
  fixes k :: "'a \<Rightarrow> int"
  assumes "\<forall>a\<in>set as. k x < k a" "\<forall>b\<in>set bs. k x \<le> k b"
  shows "sort_key k (as @ x # bs) = x # sort_key k (as @ bs)"
  using assms
proof (induction as)
  case Nil
  then show ?case by (simp add: insort_is_Cons)
next
  case (Cons a as)
  then have "k x < k a" by simp
  with Cons show ?case by simp
qed

lemma first_min_exists:
  fixes k :: "'a \<Rightarrow> int"
  assumes "ys \<noteq> []"
  shows "\<exists>as x bs. ys = as @ x # bs \<and> (\<forall>a\<in>set as. k x < k a) \<and> (\<forall>b\<in>set bs. k x \<le> k b)"
  using assms
proof (induction ys)
  case Nil
  then show ?case by simp
next
  case (Cons y ys)
  show ?case
  proof (cases "ys = []")
    case True
    then have "y # ys = [] @ y # []" by simp
    then show ?thesis by fastforce
  next
    case False
    with Cons.IH obtain as x bs where d: "ys = as @ x # bs" "\<forall>a\<in>set as. k x < k a" "\<forall>b\<in>set bs. k x \<le> k b"
      by blast
    show ?thesis
    proof (cases "k y \<le> k x")
      case True
      have "y # ys = [] @ y # ys" by simp
      moreover have "\<forall>b\<in>set ys. k y \<le> k b" using d True by fastforce
      ultimately show ?thesis by (metis empty_iff list.set(1))
    next
      case False
      then have "y # ys = (y # as) @ x # bs" "\<forall>a\<in>set (y # as). k x < k a" using d by auto
      then show ?thesis using d(3) by blast
    qed
  qed
qed


lemma first_row_mem: "first_row rows = Some r \<Longrightarrow> r \<in> set rows"
  by (cases rows) (auto simp: first_row_def)


lemma findFirst_duplicate_mem:
  "message_findFirst_duplicate s cid r txt since = Some m \<Longrightarrow>
     m \<in> set (messages s) \<and> duplicate_of cid r txt since m"
  unfolding message_findFirst_duplicate_def orderBy_createdAt_desc_def
  by (drule first_row_mem) simp


lemma findUnique_mem: "message_findUnique s i = Some m \<Longrightarrow> m \<in> set (messages s)"
  unfolding message_findUnique_def by (auto simp: find_Some_iff)

text \<open>Step 2 either reuses a stored message or appends the one it creates.\<close>

lemma resolve_user_message_cases:
  assumes "resolve_user_message e s cid b = (m, s1)"
  shows "(s1 = s \<and> m \<in> set (messages s)) \<or>
         (s1 = message_create s m \<and> role m = parsed_role b \<and> conversationId m = cid \<and>
          content m = body_content b \<and> createdAt m = user_createdAt e \<and> msg_id m = user_id e
          \<and> lookup_existing s b = None
          \<and> message_findFirst_duplicate s cid (parsed_role b) (body_content b) (date_now e - 300000) = None)"
  using assms unfolding resolve_user_message_def Let_def lookup_existing_def
  by (auto split: option.splits if_splits dest: findUnique_mem findFirst_duplicate_mem)

lemma resolve_user_message_persisted:
  assumes "resolve_user_message e s cid b = (m, s1)"
  shows "m \<in> set (messages s1) \<and> conversations s1 = conversations s \<and>
         (messages s1 = messages s \<or> messages s1 = messages s @ [m])"
  using resolve_user_message_cases[OF assms] by (auto simp: message_create_def)

lemma includes_request_aborted: "str_includes (err_message request_aborted) ''aborted''"
  by (simp add: request_aborted_def)

lemma send_message_cancelled:
  assumes "sendMessageSchema_ok b" "conversation_findUnique s cid = Some c"
    "resolve_user_message e s cid b = (userMessage, s1)"
    "adapter = Inr post" "post (history s1 cid) = Inl err" "cancellation err"
  shows "send_message e adapter s cid b = (RequestCancelled, s1)"
  using assms by (simp add: send_message_def adapter_complete_def includes_request_aborted)

lemma send_message_failed:
  assumes "sendMessageSchema_ok b" "conversation_findUnique s cid = Some c"
    "resolve_user_message e s cid b = (userMessage, s1)"
    "adapter = Inr post" "post (history s1 cid) = Inl err" "\<not> cancellation err"
  shows "send_message e adapter s cid b = (LlmUnavailable (msg_id userMessage), s1)"
  using assms by (simp add: send_message_def adapter_complete_def cancellation_def)

lemmas ex_defs = ex_conversation_def ex_other_message_def ex_store_def ex_env_def ex_body_def
  ex_user_message_def ex_cancel_def ex_http_500_def ex_reply_def ex_store_after_def
  ex_env_retry_def ex_body_retry_def

lemmas store_defs = conversation_findUnique_def message_findUnique_def duplicate_of_def
  message_findFirst_duplicate_def message_create_def conversation_update_lastMessageAt_def
  orderBy_createdAt_asc_def orderBy_createdAt_desc_def first_row_def

lemmas send_defs = sendMessageSchema_ok_def parsed_role_def lookup_existing_def
  resolve_user_message_def history_def send_message_def adapter_complete_def cancellation_def
  request_aborted_def Let_def

lemma find_conv_id_after_map:
  "find (\<lambda>c. conv_id c = i) (map (\<lambda>c. if conv_id c = cid then c\<lparr>lastMessageAt := Some t\<rparr> else c) cs) = None
   \<longleftrightarrow> find (\<lambda>c. conv_id c = i) cs = None"
  by (induction cs) auto

lemma findUnique_after_update:
  "conversation_findUnique (conversation_update_lastMessageAt s cid t) i = None \<longleftrightarrow>
   conversation_findUnique s i = None"
  by (simp add: conversation_findUnique_def conversation_update_lastMessageAt_def find_conv_id_after_map)

lemma findUnique_after_create:
  "conversation_findUnique (message_create s m) i = conversation_findUnique s i"
  by (simp add: conversation_findUnique_def message_create_def)

text \<open>What a run that passed validation and found its conversation leaves behind.\<close>

lemma send_message_outcome:
  assumes "sendMessageSchema_ok b" "conversation_findUnique s cid = Some c"
    "resolve_user_message e s cid b = (m, sr)"
  shows "send_message e adapter s cid b = (RequestCancelled, sr) \<or>
         send_message e adapter s cid b = (LlmUnavailable (msg_id m), sr) \<or>
         (\<exists>reply s1. send_message e adapter s cid b = (Created m reply, s1) \<and>
            role reply = Assistant \<and> messages s1 = messages sr @ [reply] \<and>
            (\<forall>i. conversation_findUnique s1 i = None \<longleftrightarrow> conversation_findUnique sr i = None))"
proof -
  define completion where "completion =
    (case adapter of Inl err \<Rightarrow> Inl err | Inr post \<Rightarrow> adapter_complete (post (history sr cid)))"
  show ?thesis
  proof (cases completion)
    case (Inl err)
    then show ?thesis using assms unfolding completion_def
      by (auto simp: send_message_def)
  next
    case (Inr reply_text)
    then have "\<exists>reply s1. send_message e adapter s cid b = (Created m reply, s1) \<and>
            role reply = Assistant \<and> messages s1 = messages sr @ [reply] \<and>
            (\<forall>i. conversation_findUnique s1 i = None \<longleftrightarrow> conversation_findUnique sr i = None)"
      using assms unfolding completion_def
      by (simp add: send_message_def Let_def findUnique_after_update findUnique_after_create)
         (simp add: message_create_def conversation_update_lastMessageAt_def)
    then show ?thesis by blast
  qed
qed









text \<open>
  Claim C2. When the provider call is cancelled (the client rejects with an error the
  adapter classifies as a cancellation, which every axios cancellation is), the handler
  answers 499, the store is the one step 2 left (the stored messages, or those and the
  user message: no reply is written, no conversation is touched), and the user message is
  in it.
\<close>

theorem cancelled_send:
  assumes "sendMessageSchema_ok b" and "conversation_findUnique s cid = Some c"
    and "resolve_user_message e s cid b = (userMessage, s1)"
    and "adapter = Inr post" and "post (history s1 cid) = Inl err" and "cancellation err"
  shows "send_message e adapter s cid b = (RequestCancelled, s1) \<and>
         status_code (fst (send_message e adapter s cid b)) = 499 \<and>
         userMessage \<in> set (messages s1) \<and>
         (messages s1 = messages s \<or> messages s1 = messages s @ [userMessage]) \<and>
         conversations s1 = conversations s"
  using send_message_cancelled[OF assms] resolve_user_message_persisted[OF assms(3)]
  by simp

theorem cancelled_send_witness:
  "sendMessageSchema_ok ex_body \<and> conversation_findUnique ex_store ''c1'' = Some ex_conversation \<and>
   resolve_user_message ex_env ex_store ''c1'' ex_body
     = (ex_user_message, ex_store\<lparr>messages := [ex_other_message, ex_user_message]\<rparr>) \<and>
   cancellation ex_cancel \<and>
   send_message ex_env (Inr (\<lambda>h. Inl ex_cancel)) ex_store ''c1'' ex_body
     = (RequestCancelled, ex_store\<lparr>messages := [ex_other_message, ex_user_message]\<rparr>)"
proof -
  have h1: "sendMessageSchema_ok ex_body" by (simp add: ex_defs send_defs)
  have h2: "conversation_findUnique ex_store ''c1'' = Some ex_conversation"
    by (simp add: ex_defs store_defs)
  have h3: "resolve_user_message ex_env ex_store ''c1'' ex_body
     = (ex_user_message, ex_store\<lparr>messages := [ex_other_message, ex_user_message]\<rparr>)"
    by (simp add: ex_defs send_defs store_defs)
  have h6: "cancellation ex_cancel" by (simp add: ex_defs cancellation_def)
  show ?thesis
    using cancelled_send[where adapter = "Inr (\<lambda>h. Inl ex_cancel)" and post = "\<lambda>h. Inl ex_cancel",
        OF h1 h2 h3 refl refl h6] h1 h2 h3 h6
    by simp
qed

text \<open>
  A failure of the provider call that the adapter does not take for a cancellation (it is
  no axios cancellation and its message does not contain \<^verbatim>\<open>aborted\<close>), after the client's
  retries, which the outcome of \<^verbatim>\<open>client.post\<close> stands for: the handler answers 502 with the
  identifier of the user message, which is in the store; no reply is written and the
  conversations, so their \<^verbatim>\<open>lastMessageAt\<close>, are unchanged.
\<close>

theorem upstream_failure_send:
  assumes "sendMessageSchema_ok b" and "conversation_findUnique s cid = Some c"
    and "resolve_user_message e s cid b = (userMessage, s1)"
    and "adapter = Inr post" and "post (history s1 cid) = Inl err" and "\<not> cancellation err"
  shows "send_message e adapter s cid b = (LlmUnavailable (msg_id userMessage), s1) \<and>
         status_code (fst (send_message e adapter s cid b)) = 502 \<and>
         userMessage \<in> set (messages s1) \<and>
         (messages s1 = messages s \<or> messages s1 = messages s @ [userMessage]) \<and>
         conversations s1 = conversations s"
  using send_message_failed[OF assms] resolve_user_message_persisted[OF assms(3)]
  by simp

theorem upstream_failure_send_witness:
  "sendMessageSchema_ok ex_body \<and> conversation_findUnique ex_store ''c1'' = Some ex_conversation \<and>
   resolve_user_message ex_env ex_store ''c1'' ex_body
     = (ex_user_message, ex_store\<lparr>messages := [ex_other_message, ex_user_message]\<rparr>) \<and>
   \<not> cancellation ex_http_500 \<and>
   send_message ex_env (Inr (\<lambda>h. Inl ex_http_500)) ex_store ''c1'' ex_body
     = (LlmUnavailable ''m1'', ex_store\<lparr>messages := [ex_other_message, ex_user_message]\<rparr>) \<and>
   conversations (snd (send_message ex_env (Inr (\<lambda>h. Inl ex_http_500)) ex_store ''c1'' ex_body))
     = [ex_conversation]"
proof -
  have h1: "sendMessageSchema_ok ex_body" by (simp add: ex_defs send_defs)
  have h2: "conversation_findUnique ex_store ''c1'' = Some ex_conversation"
    by (simp add: ex_defs store_defs)
  have h3: "resolve_user_message ex_env ex_store ''c1'' ex_body
     = (ex_user_message, ex_store\<lparr>messages := [ex_other_message, ex_user_message]\<rparr>)"
    by (simp add: ex_defs send_defs store_defs)
  have h6: "\<not> cancellation ex_http_500" by (simp add: ex_defs cancellation_def)
  have i: "msg_id ex_user_message = ''m1''" by (simp add: ex_defs)
  have c: "conversations ex_store = [ex_conversation]" by (simp add: ex_defs)
  show ?thesis
    using upstream_failure_send[where adapter = "Inr (\<lambda>h. Inl ex_http_500)" and post = "\<lambda>h. Inl ex_http_500",
        OF h1 h2 h3 refl refl h6] h1 h2 h3 h6 i c
    by simp
qed

text \<open>
  Claim C3, at a provider whose response stream breaks on every attempt, with no signal
  fired. The client rejects after its two retries with the error of axios for a broken
  stream, which is no cancellation: the provider call has failed with its retries
  exhausted. The message of that error contains \<^verbatim>\<open>aborted\<close>, so the adapter rethrows it
  as \<^verbatim>\<open>Request aborted\<close> and the handler answers 499, the status of a cancelled request,
  whose body carries no message identifier. The same failure under another message
  (\<^verbatim>\<open>socket hang up\<close>) is answered 502 with the identifier of the stored user message.
\<close>

theorem aborted_stream_answers_499:
  "\<not> is_cancel (network_error ''stream has been aborted'') \<and>
   outcome (client_post (\<lambda>n. Fails 100 ''stream has been aborted'') None)
     = Inl (network_error ''stream has been aborted'') \<and>
   length (retries_made (client_post (\<lambda>n. Fails 100 ''stream has been aborted'') None)) = 2 \<and>
   send_message ex_env
       (Inr (\<lambda>h. outcome (client_post (\<lambda>n. Fails 100 ''stream has been aborted'') None)))
       ex_store ''c1'' ex_body
     = (RequestCancelled, ex_store\<lparr>messages := [ex_other_message, ex_user_message]\<rparr>) \<and>
   status_code RequestCancelled = 499 \<and>
   send_message ex_env
       (Inr (\<lambda>h. outcome (client_post (\<lambda>n. Fails 100 ''socket hang up'') None)))
       ex_store ''c1'' ex_body
     = (LlmUnavailable ''m1'', ex_store\<lparr>messages := [ex_other_message, ex_user_message]\<rparr>) \<and>
   status_code (LlmUnavailable ''m1'') = 502"
proof -
  have p: "client_post (\<lambda>n. Fails 100 msg) None
     = \<lparr>outcome = Inl (network_error msg), finished_at = 1800,
        retries_made =
          [\<lparr>retry_error = network_error msg, retry_delay = 500,
            failed_at = 100, restarted_at = 600\<rparr>,
           \<lparr>retry_error = network_error msg, retry_delay = 1000,
            failed_at = 700, restarted_at = 1700\<rparr>]\<rparr>" for msg
    by (simp add: client_post_def request.simps attempt_def settle_def retryCondition_def
        retryDelay_def retries_def timeout_def network_error_def restart_time_def Let_def)
  have c: "cancellation (network_error ''stream has been aborted'')"
    by (simp add: cancellation_def network_error_def)
  have s: "send_message ex_env (Inr (\<lambda>h. Inl (network_error ''stream has been aborted'')))
       ex_store ''c1'' ex_body
     = (RequestCancelled, ex_store\<lparr>messages := [ex_other_message, ex_user_message]\<rparr>)"
    using c by (simp add: ex_defs send_defs store_defs adapter_complete_def)
  have n: "\<not> cancellation (network_error ''socket hang up'')"
    by (simp add: cancellation_def network_error_def)
  have u: "send_message ex_env (Inr (\<lambda>h. Inl (network_error ''socket hang up'')))
       ex_store ''c1'' ex_body
     = (LlmUnavailable ''m1'', ex_store\<lparr>messages := [ex_other_message, ex_user_message]\<rparr>)"
    using n by (simp add: ex_defs send_defs store_defs adapter_complete_def)
  show ?thesis using p s u by (simp add: network_error_def)
qed

text \<open>
  Claim C10. A request whose \<^verbatim>\<open>existingMessageId\<close> names any stored message gets that message
  as its user message: nothing is assumed of the message's conversation or role, no
  message is created, and each outcome (201, 502, 499) hands that message or its
  identifier back.
\<close>

theorem existing_message_reused_unchecked:
  assumes "sendMessageSchema_ok b" and "conversation_findUnique s cid = Some c"
    and "existingMessageId b = Some i" and "i \<noteq> []" and "message_findUnique s i = Some m"
  shows "resolve_user_message e s cid b = (m, s) \<and>
     (send_message e adapter s cid b = (RequestCancelled, s) \<or>
      send_message e adapter s cid b = (LlmUnavailable (msg_id m), s) \<or>
      (\<exists>reply s1. send_message e adapter s cid b = (Created m reply, s1)))"
proof -
  have r: "resolve_user_message e s cid b = (m, s)"
    using assms(3-5) by (simp add: resolve_user_message_def lookup_existing_def)
  show ?thesis using send_message_outcome[OF assms(1,2) r, of adapter] r by blast
qed

theorem existing_message_reused_unchecked_witness:
  "sendMessageSchema_ok ex_body_retry \<and> conversation_findUnique ex_store ''c1'' = Some ex_conversation \<and>
   existingMessageId ex_body_retry = Some ''m0'' \<and> message_findUnique ex_store ''m0'' = Some ex_other_message \<and>
   conversationId ex_other_message \<noteq> ''c1'' \<and> role ex_other_message = Assistant \<and>
   resolve_user_message ex_env ex_store ''c1'' ex_body_retry = (ex_other_message, ex_store) \<and>
   fst (send_message ex_env (Inr (\<lambda>h. Inr (Some ''Hi''))) ex_store ''c1'' ex_body_retry)
     = Created ex_other_message ex_reply"
proof -
  have h1: "sendMessageSchema_ok ex_body_retry" by (simp add: ex_defs send_defs)
  have h2: "conversation_findUnique ex_store ''c1'' = Some ex_conversation"
    by (simp add: ex_defs store_defs)
  have h3: "existingMessageId ex_body_retry = Some ''m0''" by (simp add: ex_defs)
  have h4: "''m0'' \<noteq> []" by simp
  have h5: "message_findUnique ex_store ''m0'' = Some ex_other_message" by (simp add: ex_defs store_defs)
  have o: "conversationId ex_other_message \<noteq> ''c1'' \<and> role ex_other_message = Assistant" by (simp add: ex_defs)
  have r: "fst (send_message ex_env (Inr (\<lambda>h. Inr (Some ''Hi''))) ex_store ''c1'' ex_body_retry)
     = Created ex_other_message ex_reply"
    by (simp add: ex_defs send_defs store_defs)
  show ?thesis
    using existing_message_reused_unchecked[OF h1 h2 h3 h4 h5, of ex_env "Inr (\<lambda>h. Inr (Some ''Hi''))"]
      h1 h2 h3 h5 o r
    by simp
qed


section \<open>Properties of conversation creation\<close>

lemma sort_key_head_least:
  fixes k :: "'a \<Rightarrow> int"
  assumes "xs \<noteq> []"
  shows "\<exists>x rest. sort_key k xs = x # rest \<and> x \<in> set xs \<and> (\<forall>y\<in>set xs. k x \<le> k y)"
proof -
  obtain as x bs where d: "xs = as @ x # bs" "\<forall>a\<in>set as. k x < k a" "\<forall>b\<in>set bs. k x \<le> k b"
    using first_min_exists[OF assms, of k] by blast
  then have "sort_key k xs = x # sort_key k (as @ bs)" by (simp add: sort_key_first_min)
  moreover have "x \<in> set xs" "\<forall>y\<in>set xs. k x \<le> k y" using d by auto
  ultimately show ?thesis by blast
qed

lemma maxConversation_empty: "conversations s = [] \<Longrightarrow> maxConversation s = None"
  by (simp add: maxConversation_def first_row_def)

lemma maxConversation_Max:
  assumes "conversations s \<noteq> []"
  shows "maxConversation s = Some (Max (displayIndex ` set (conversations s)))"
proof -
  obtain x rest where h: "sort_key (\<lambda>c. - displayIndex c) (conversations s) = x # rest"
    "x \<in> set (conversations s)" "\<forall>y\<in>set (conversations s). - displayIndex x \<le> - displayIndex y"
    using sort_key_head_least[OF assms, of "\<lambda>c. - displayIndex c"] by blast
  have "Max (displayIndex ` set (conversations s)) = displayIndex x"
    using h(2,3) by (intro Max_eqI) auto
  then show ?thesis using h(1) by (simp add: maxConversation_def first_row_def)
qed

lemma next_index_fresh:
  assumes "conversations s \<noteq> []"
  shows "Max (displayIndex ` set (conversations s)) + 1 \<notin> displayIndex ` set (conversations s)"
proof
  assume "Max (displayIndex ` set (conversations s)) + 1 \<in> displayIndex ` set (conversations s)"
  then have "Max (displayIndex ` set (conversations s)) + 1 \<le> Max (displayIndex ` set (conversations s))"
    by (intro Max_ge) auto
  then show False by simp
qed

lemma create_conversation_at_distinct:
  assumes "distinct (map displayIndex (conversations s))"
  shows "distinct (map displayIndex (conversations (snd (create_conversation_at e seen s b))))"
  using assms
  by (auto simp: create_conversation_at_def conversation_create_def Let_def split: option.splits)

text \<open>
  Claim C8. A creation with a valid body answers 201; the new conversation's counter is
  one more than the largest counter in the store, 1 in an empty store; it differs from
  every counter in the store, so counters stay pairwise different, and they stay so even
  when the insert meets a store other than the one the read saw (the unique index then
  refuses the insert); without a title in the request the title is \<^verbatim>\<open>Conversation #\<close>
  followed by the decimal digits of the counter.
\<close>

theorem create_conversation_counter:
  assumes "createConversationSchema_ok b"
  shows "\<exists>created. create_conversation e s b
            = (ConversationCreated created, s\<lparr>conversations := conversations s @ [created]\<rparr>) \<and>
     displayIndex created
       = (if conversations s = [] then 1 else Max (displayIndex ` set (conversations s)) + 1) \<and>
     displayIndex created \<notin> displayIndex ` set (conversations s) \<and>
     (distinct (map displayIndex (conversations s)) \<longrightarrow>
        distinct (map displayIndex (conversations s @ [created])) \<and>
        (\<forall>seen. distinct (map displayIndex
                  (conversations (snd (create_conversation_at e seen s b)))))) \<and>
     (body_title b = None \<longrightarrow> title created = ''Conversation #'' @ show_int (displayIndex created))"
proof (cases "conversations s = []")
  case True
  then show ?thesis using assms create_conversation_at_distinct[of s e _ b]
    by (simp add: create_conversation_def create_conversation_at_def maxConversation_empty
        conversation_create_def Let_def split: option.splits)
next
  case False
  then show ?thesis using assms next_index_fresh[OF False] create_conversation_at_distinct[of s e _ b]
    by (simp add: create_conversation_def create_conversation_at_def maxConversation_Max
        conversation_create_def Let_def split: option.splits)
qed

lemma show_int_2: "show_int 2 = ''2''"
  by (simp add: show_int_def digit_char_def)

theorem create_conversation_counter_witness:
  "createConversationSchema_ok \<lparr>body_title = None\<rparr> \<and>
   create_conversation ex_create_env ex_store \<lparr>body_title = None\<rparr>
     = (ConversationCreated ex_second_conversation,
        ex_store\<lparr>conversations := [ex_conversation, ex_second_conversation]\<rparr>) \<and>
   distinct (map displayIndex [ex_conversation, ex_second_conversation])"
proof -
  have h: "createConversationSchema_ok \<lparr>body_title = None\<rparr>"
    by (simp add: createConversationSchema_ok_def)
  have c: "conversations ex_store = [ex_conversation]" "displayIndex ex_conversation = 1"
    by (simp_all add: ex_defs)
  obtain created where r: "create_conversation ex_create_env ex_store \<lparr>body_title = None\<rparr>
            = (ConversationCreated created, ex_store\<lparr>conversations := conversations ex_store @ [created]\<rparr>)"
    "displayIndex created = (if conversations ex_store = [] then 1 else Max (displayIndex ` set (conversations ex_store)) + 1)"
    "distinct (map displayIndex (conversations ex_store)) \<longrightarrow>
        distinct (map displayIndex (conversations ex_store @ [created])) \<and>
        (\<forall>seen. distinct (map displayIndex
                  (conversations (snd (create_conversation_at ex_create_env seen ex_store \<lparr>body_title = None\<rparr>)))))"
    using create_conversation_counter[OF h, of ex_create_env ex_store] by blast
  have e: "create_conversation ex_create_env ex_store \<lparr>body_title = None\<rparr>
     = (ConversationCreated ex_second_conversation,
        ex_store\<lparr>conversations := [ex_conversation, ex_second_conversation]\<rparr>)"
    by (simp add: create_conversation_def create_conversation_at_def createConversationSchema_ok_def maxConversation_def
        conversation_create_def first_row_def ex_defs ex_create_env_def ex_second_conversation_def
        show_int_2 Let_def)
  with r(1) have "created = ex_second_conversation" by simp
  with r(3) c h e show ?thesis by simp
qed

text \<open>
  A deletion keeps the counters pairwise different. It can free the largest one: the
  counter of a conversation created after the newest one was deleted is the counter that
  one had.
\<close>

lemma delete_conversation_distinct:
  assumes "distinct (map displayIndex (conversations s))"
  shows "distinct (map displayIndex (conversations (snd (delete_conversation s cid))))"
  using assms
  by (auto simp: delete_conversation_def distinct_map_filter split: option.splits)

lemma counter_reused_after_delete:
  "fst (create_conversation ex_create_env
          (snd (delete_conversation
                  (ex_store\<lparr>conversations := [ex_conversation, ex_second_conversation]\<rparr>) ''c2''))
          \<lparr>body_title = None\<rparr>)
     = ConversationCreated ex_second_conversation"
  by (simp add: create_conversation_def create_conversation_at_def createConversationSchema_ok_def
      maxConversation_def conversation_create_def first_row_def delete_conversation_def
      conversation_findUnique_def ex_defs ex_create_env_def ex_second_conversation_def
      show_int_2 Let_def)

section \<open>Properties of the HTTP client\<close>

lemma attempt_within:
  "t0 \<le> fst (attempt abortAt t0 t bhv) \<and> fst (attempt abortAt t0 t bhv) \<le> t0 + t"
  by (cases bhv) (auto simp: attempt_def Let_def split: option.splits)

lemma restart_time_within:
  "t1 \<le> restart_time abortAt t1 delay \<and> restart_time abortAt t1 delay \<le> t1 + delay \<and>
   (abortAt = None \<longrightarrow> restart_time abortAt t1 delay = t1 + delay)"
  by (auto simp: restart_time_def split: option.splits)

text \<open>
  What holds of every call of the loop: the delays are those of the retry counts still
  to come, every retried error passed \<^verbatim>\<open>retryCondition\<close>, every retry started within its
  delay of the rejection (exactly after it when no signal fires), and the call ends
  before the timeout it was given.
\<close>

lemma request_invariant:
  "retryCount \<le> retries \<Longrightarrow>
     prefix (map retry_delay (retries_made (request provider abortAt retryCount t t0)))
            (map retryDelay [Suc retryCount ..< Suc retries]) \<and>
     (\<forall>x\<in>set (retries_made (request provider abortAt retryCount t t0)).
        retryCondition (retry_error x) \<and> failed_at x \<le> restarted_at x \<and>
        restarted_at x \<le> failed_at x + retry_delay x \<and>
        (abortAt = None \<longrightarrow> restarted_at x = failed_at x + retry_delay x)) \<and>
     finished_at (request provider abortAt retryCount t t0) \<le> t0 + t"
proof (induction provider abortAt retryCount t t0 rule: request.induct)
  case (1 provider abortAt retryCount t t0)
  obtain t1 res where a: "attempt abortAt t0 t (provider retryCount) = (t1, res)"
    by (cases "attempt abortAt t0 t (provider retryCount)")
  have t1: "t0 \<le> t1" "t1 \<le> t0 + t"
    using attempt_within[of t0 abortAt t "provider retryCount"] a by simp_all
  show ?case
  proof (cases res)
    case (Inr body)
    then have "request provider abortAt retryCount t t0 = settle (Inr body) t1"
      using a by (subst request.simps) simp
    then show ?thesis using t1 by (simp add: settle_def)
  next
    case (Inl err)
    show ?thesis
    proof (cases "retryCount < retries \<and> retryCondition err \<and>
                  \<not> t \<le> (t1 - t0) + retryDelay (retryCount + 1)")
      case False
      then have "request provider abortAt retryCount t t0 = settle (Inl err) t1"
        using a Inl by (subst request.simps) (auto simp: Let_def)
      then show ?thesis using t1 by (simp add: settle_def)
    next
      case True
      define delay where "delay = retryDelay (retryCount + 1)"
      define t2 where "t2 = restart_time abortAt t1 delay"
      let ?r = "request provider abortAt (retryCount + 1) (t - (t1 - t0) - delay) t2"
      have eq: "request provider abortAt retryCount t t0
                  = ?r\<lparr>retries_made := \<lparr>retry_error = err, retry_delay = delay, failed_at = t1,
                                         restarted_at = t2\<rparr> # retries_made ?r\<rparr>"
        using a Inl True unfolding delay_def t2_def by (subst request.simps) (simp add: Let_def)
      have ih: "prefix (map retry_delay (retries_made ?r)) (map retryDelay [Suc (retryCount + 1) ..< Suc retries]) \<and>
        (\<forall>x\<in>set (retries_made ?r). retryCondition (retry_error x) \<and> failed_at x \<le> restarted_at x \<and>
           restarted_at x \<le> failed_at x + retry_delay x \<and>
           (abortAt = None \<longrightarrow> restarted_at x = failed_at x + retry_delay x)) \<and>
        finished_at ?r \<le> t2 + (t - (t1 - t0) - delay)"
        using "1.IH"[OF a[symmetric] Inl, of "retryDelay (retryCount + 1)" "t1 - t0"
            "restart_time abortAt t1 (retryDelay (retryCount + 1))"] True
        unfolding delay_def t2_def by (simp del: upt_Suc)
      have t2: "t1 \<le> t2" "t2 \<le> t1 + delay" "abortAt = None \<longrightarrow> t2 = t1 + delay"
        using restart_time_within[of t1 abortAt delay] unfolding t2_def by simp_all
      have "t2 + (t - (t1 - t0) - delay) \<le> t0 + t"
        using True t1 t2(2) unfolding delay_def by arith
      with ih have fin: "finished_at ?r \<le> t0 + t" by simp
      have up: "map retryDelay [Suc retryCount ..< Suc retries]
                  = delay # map retryDelay [Suc (retryCount + 1) ..< Suc retries]"
        using True unfolding delay_def by (simp add: upt_conv_Cons del: upt_Suc)
      show ?thesis unfolding eq up using ih fin True t2 by (simp del: upt_Suc)
    qed
  qed
qed

lemma retry_delays: "map retryDelay [Suc 0 ..< Suc retries] = [500, 1000]"
  by (simp add: retries_def retryDelay_def upt_rec)

text \<open>
  Claim C5. Times are in milliseconds. For every behaviour of the provider and every
  time of cancellation, a call makes at most 2 retries; the delays given for them are
  500, then 1000; every error that was followed by a retry had no response or a status
  of 500 or more, so none had a status from 400 to 499; each retry starts no later than
  its delay after the failed attempt ended, and exactly then when no signal fires; and
  the call ends within the timeout of 12000, that is 12 seconds, of its start.
\<close>

theorem retry_policy:
  "length (retries_made (client_post provider abortAt)) \<le> 2 \<and>
   prefix (map retry_delay (retries_made (client_post provider abortAt))) [500, 1000] \<and>
   (\<forall>x\<in>set (retries_made (client_post provider abortAt)).
      (response_status (retry_error x) = None \<or>
       (\<exists>st. response_status (retry_error x) = Some st \<and> 500 \<le> st)) \<and>
      (\<forall>st. response_status (retry_error x) = Some st \<longrightarrow> \<not> (400 \<le> st \<and> st < 500)) \<and>
      restarted_at x \<le> failed_at x + retry_delay x \<and>
      (abortAt = None \<longrightarrow> restarted_at x = failed_at x + retry_delay x)) \<and>
   timeout = 12 * 1000 \<and>
   finished_at (client_post provider abortAt) \<le> timeout"
proof -
  let ?r = "client_post provider abortAt"
  have inv: "prefix (map retry_delay (retries_made ?r)) [500, 1000]"
    "\<forall>x\<in>set (retries_made ?r). retryCondition (retry_error x) \<and> failed_at x \<le> restarted_at x \<and>
        restarted_at x \<le> failed_at x + retry_delay x \<and>
        (abortAt = None \<longrightarrow> restarted_at x = failed_at x + retry_delay x)"
    "finished_at ?r \<le> 0 + timeout"
    using request_invariant[of 0 provider abortAt timeout 0] retry_delays
    by (simp_all add: client_post_def)
  have len: "length (retries_made ?r) \<le> 2" using prefix_length_le[OF inv(1)] by simp
  have cond: "response_status (retry_error x) = None \<or>
              (\<exists>st. response_status (retry_error x) = Some st \<and> 500 \<le> st)"
    if "x \<in> set (retries_made ?r)" for x
    using inv(2) that by (auto simp: retryCondition_def split: option.splits)
  have no4xx: "\<forall>st. response_status (retry_error x) = Some st \<longrightarrow> \<not> (400 \<le> st \<and> st < 500)"
    if "x \<in> set (retries_made ?r)" for x
    using cond[OF that] by auto
  show ?thesis using inv len cond no4xx by (simp add: timeout_def)
qed

theorem retry_policy_witness:
  "client_post ex_flaky_provider None
     = \<lparr>outcome = Inr (Some ''ok''), finished_at = 8200,
        retries_made =
          [\<lparr>retry_error = network_error ''socket hang up'', retry_delay = 500,
            failed_at = 3000, restarted_at = 3500\<rparr>,
           \<lparr>retry_error = network_error ''socket hang up'', retry_delay = 1000,
            failed_at = 6500, restarted_at = 7500\<rparr>]\<rparr> \<and>
   response_status (network_error ''socket hang up'') = None \<and>
   client_post (\<lambda>n. Responds 1500 404 None) None
     = \<lparr>outcome = Inl (status_error 404), finished_at = 1500, retries_made = []\<rparr>"
proof -
  have a: "client_post ex_flaky_provider None
     = \<lparr>outcome = Inr (Some ''ok''), finished_at = 8200,
        retries_made =
          [\<lparr>retry_error = network_error ''socket hang up'', retry_delay = 500,
            failed_at = 3000, restarted_at = 3500\<rparr>,
           \<lparr>retry_error = network_error ''socket hang up'', retry_delay = 1000,
            failed_at = 6500, restarted_at = 7500\<rparr>]\<rparr>"
    by (simp add: client_post_def request.simps attempt_def settle_def retryCondition_def
        retryDelay_def retries_def timeout_def network_error_def restart_time_def
        ex_flaky_provider_def Let_def)
  have b: "client_post (\<lambda>n. Responds 1500 404 None) None
     = \<lparr>outcome = Inl (status_error 404), finished_at = 1500, retries_made = []\<rparr>"
    by (simp add: client_post_def request.simps attempt_def settle_def retryCondition_def
        retries_def timeout_def status_error_def Let_def)
  show ?thesis
    using retry_policy[of ex_flaky_provider None] a b by (simp add: network_error_def)
qed

text \<open>
  Claim C6, at a call whose provider would answer after 1500 ms and whose signal fires
  100 ms after the start. The attempt in flight is aborted and the call ends at 100 ms
  with the cancellation, which the adapter turns into \<^verbatim>\<open>Request aborted\<close>. But the
  cancellation has no response, so \<^verbatim>\<open>retryCondition\<close> holds of it, and the client makes
  both of its retries before it gives up; each is rejected by the signal as it starts.
\<close>

theorem cancelled_call_is_retried:
  "retryCondition canceled_error \<and>
   client_post (\<lambda>n. Responds 1500 200 (Some ''Hi'')) (Some 100)
     = \<lparr>outcome = Inl canceled_error, finished_at = 100,
        retries_made =
          [\<lparr>retry_error = canceled_error, retry_delay = 500, failed_at = 100, restarted_at = 100\<rparr>,
           \<lparr>retry_error = canceled_error, retry_delay = 1000, failed_at = 100, restarted_at = 100\<rparr>]\<rparr> \<and>
   adapter_complete (outcome (client_post (\<lambda>n. Responds 1500 200 (Some ''Hi'')) (Some 100)))
     = Inl request_aborted"
proof -
  have a: "client_post (\<lambda>n. Responds 1500 200 (Some ''Hi'')) (Some 100)
     = \<lparr>outcome = Inl canceled_error, finished_at = 100,
        retries_made =
          [\<lparr>retry_error = canceled_error, retry_delay = 500, failed_at = 100, restarted_at = 100\<rparr>,
           \<lparr>retry_error = canceled_error, retry_delay = 1000, failed_at = 100, restarted_at = 100\<rparr>]\<rparr>"
    by (simp add: client_post_def request.simps attempt_def settle_def retryCondition_def
        retryDelay_def retries_def timeout_def canceled_error_def restart_time_def Let_def)
  have b: "retryCondition canceled_error" by (simp add: retryCondition_def canceled_error_def)
  have c: "cancellation canceled_error" by (simp add: cancellation_def canceled_error_def)
  show ?thesis using a b c by (simp add: adapter_complete_def)
qed

section \<open>Properties of the cursor\<close>

subsection \<open>base64url round trip\<close>











subsection \<open>JSON round trip\<close>






lemma skip_ws_no_ws: "\<not> is_ws c \<Longrightarrow> skip_ws (c # cs) = c # cs"
  by (simp add: skip_ws_def)






section \<open>The cursor claim\<close>









section \<open>Properties of the paginated query and of the read paths\<close>

lemma desc_rows_length:
  "length (orderBy_createdAt_desc (filter P ms)) = length (filter P ms)"
  by (simp add: orderBy_createdAt_desc_def)

text \<open>Where the limit is within 1 to 100, the page and its flag are as the query intends.\<close>

lemma page_within_cap:
  assumes "conversation_findUnique s cid = Some c" "1 \<le> limit" "limit \<le> 100"
  shows "\<exists>p. get_conversation toISOString s cid None (Some limit) = GetOk c p \<and>
     items p = take (nat limit) (orderBy_createdAt_desc (filter (\<lambda>m. conversationId m = cid) (messages s))) \<and>
     length (items p) \<le> nat limit \<and>
     (hasMore p \<longleftrightarrow> limit < int (length (filter (\<lambda>m. conversationId m = cid) (messages s))))"
proof -
  let ?rows = "orderBy_createdAt_desc (filter (\<lambda>m. conversationId m = cid) (messages s))"
  have q: "buildPaginationQuery None limit = Inr \<lparr>q_take = limit + 1, q_cursor = None\<rparr>"
    using assms(2,3) by (simp add: buildPaginationQuery_def)
  have f: "message_findMany_page s cid \<lparr>q_take = limit + 1, q_cursor = None\<rparr>
             = Inr (take (nat (limit + 1)) ?rows)"
    by (simp add: message_findMany_page_def)
  have l: "length ?rows = length (filter (\<lambda>m. conversationId m = cid) (messages s))"
    by (rule desc_rows_length)
  have more: "limit < int (length (take (nat (limit + 1)) ?rows))
              \<longleftrightarrow> limit < int (length (filter (\<lambda>m. conversationId m = cid) (messages s)))"
    using assms(2) l by auto
  have t: "take (nat limit) (take (nat (limit + 1)) ?rows) = take (nat limit) ?rows"
    using assms(2) by (simp add: min_def)
  have few: "\<not> limit < int (length (take (nat (limit + 1)) ?rows)) \<Longrightarrow>
              take (nat (limit + 1)) ?rows = take (nat limit) ?rows"
    using assms(2) by auto
  show ?thesis
    using assms q f more t few
    by (auto simp: get_conversation_def createCursorPagination_def slice_from_0_def Let_def)
qed

text \<open>Beyond 100 the query reads 101 rows, and the page is built with the limit as given.\<close>

lemma page_beyond_cap:
  assumes "conversation_findUnique s cid = Some c" "100 < limit"
    "limit < int (length (filter (\<lambda>m. conversationId m = cid) (messages s)))"
  shows "\<exists>p. get_conversation toISOString s cid None (Some limit) = GetOk c p \<and>
     length (items p) = 101 \<and> \<not> hasMore p \<and> nextCursor p = None"
proof -
  let ?rows = "orderBy_createdAt_desc (filter (\<lambda>m. conversationId m = cid) (messages s))"
  have q: "buildPaginationQuery None limit = Inr \<lparr>q_take = 101, q_cursor = None\<rparr>"
    using assms(2) by (simp add: buildPaginationQuery_def)
  have f: "message_findMany_page s cid \<lparr>q_take = 101, q_cursor = None\<rparr> = Inr (take 101 ?rows)"
    by (simp add: message_findMany_page_def)
  have l: "length (take 101 ?rows) = 101"
    using assms(2,3) by (simp add: desc_rows_length)
  show ?thesis
    using assms(1,2) q f l
    by (simp add: get_conversation_def createCursorPagination_def Let_def)
qed

text \<open>
  Claim C7, at a conversation of 102 messages read with \<^verbatim>\<open>limit=101\<close> and no cursor: the
  query is clamped to 100 and reads 101 rows, the page is built with 101, so it holds 101
  messages, says that nothing more exists and carries no next cursor, although more rows
  than the limit match.
\<close>

theorem page_flag_beyond_cap:
  "length (filter (\<lambda>m. conversationId m = ''c1'') (messages ex_long_store)) = 102 \<and>
   (\<exists>p. get_conversation toISOString ex_long_store ''c1'' None (Some 101) = GetOk ex_conversation p \<and>
        length (items p) = 101 \<and> \<not> hasMore p \<and> nextCursor p = None)"
proof -
  have n: "length (filter (\<lambda>m. conversationId m = ''c1'') (messages ex_long_store)) = 102"
    by (simp add: ex_long_store_def filter_map comp_def)
  have f: "conversation_findUnique ex_long_store ''c1'' = Some ex_conversation"
    by (simp add: ex_long_store_def conversation_findUnique_def ex_conversation_def)
  show ?thesis using page_beyond_cap[OF f, of 101 toISOString] n by simp
qed

lemma desc_rows_sorted:
  "sorted_wrt (\<lambda>a b. createdAt b \<le> createdAt a) (orderBy_createdAt_desc ms)"
proof -
  have "sorted (map createdAt (sort_key createdAt ms))" by simp
  then have "sorted_wrt (\<lambda>a b. createdAt a \<le> createdAt b) (sort_key createdAt ms)"
    by (simp add: sorted_map)
  then show ?thesis by (simp add: orderBy_createdAt_desc_def sorted_wrt_rev)
qed

text \<open>A read with or without a cursor returns a run of consecutive rows of the descending read.\<close>

lemma findMany_page_run:
  assumes "message_findMany_page s cid q = Inr rows"
  shows "\<exists>k n. rows = take n (drop k (orderBy_createdAt_desc (filter (\<lambda>m. conversationId m = cid) (messages s))))"
proof -
  let ?all = "orderBy_createdAt_desc (filter (\<lambda>m. conversationId m = cid) (messages s))"
  show ?thesis
  proof (cases "q_cursor q")
    case None
    then have "rows = take (nat (q_take q)) (drop 0 ?all)"
      using assms by (simp add: message_findMany_page_def)
    then show ?thesis by blast
  next
    case (Some key)
    then obtain i where i: "key = Some (JString i)"
      using assms by (auto simp: message_findMany_page_def split: option.splits json.splits)
    then have "rows = take (nat (q_take q)) (dropWhile (\<lambda>m. msg_id m \<noteq> i) ?all)"
      using assms Some by (simp add: message_findMany_page_def)
    then have "rows = take (nat (q_take q)) (drop (length (takeWhile (\<lambda>m. msg_id m \<noteq> i) ?all)) ?all)"
      by (simp add: dropWhile_eq_drop)
    then show ?thesis by blast
  qed
qed

lemma page_items_prefix: "\<exists>n. items (createCursorPagination toISOString rows limit) = take n rows"
proof (cases "limit < int (length rows)")
  case True
  then show ?thesis
    by (auto simp: createCursorPagination_def slice_from_0_def Let_def)
next
  case False
  then have "items (createCursorPagination toISOString rows limit) = take (length rows) rows"
    by (simp add: createCursorPagination_def Let_def)
  then show ?thesis by blast
qed

lemma get_conversation_run:
  assumes "get_conversation toISOString s cid cursor limit_param = GetOk c p"
  shows "\<exists>k n. items p = take n (drop k (orderBy_createdAt_desc (filter (\<lambda>m. conversationId m = cid) (messages s))))"
proof -
  obtain q rows limit where r: "message_findMany_page s cid q = Inr rows"
    and p: "p = createCursorPagination toISOString rows limit"
    using assms
    by (auto simp: get_conversation_def Let_def split: option.splits sum.splits)
  obtain m where m: "items p = take m rows" using page_items_prefix[of toISOString rows limit] p by blast
  obtain k n where "rows = take n (drop k (orderBy_createdAt_desc (filter (\<lambda>m. conversationId m = cid) (messages s))))"
    using findMany_page_run[OF r] by blast
  then have "items p = take (min m n) (drop k (orderBy_createdAt_desc (filter (\<lambda>m. conversationId m = cid) (messages s))))"
    using m by simp
  then show ?thesis by blast
qed

lemma run_sorted:
  assumes "rows = take n (drop k (orderBy_createdAt_desc ms))"
  shows "sorted_wrt (\<lambda>a b. createdAt b \<le> createdAt a) rows"
  using assms desc_rows_sorted[of ms] by (simp add: sorted_wrt_take sorted_wrt_drop)

text \<open>
  Claim C9 as stated fails where two messages share a timestamp. With \<open>b\<close> stored before
  \<open>a\<close>, the history and the client's list give \<open>b\<close> before \<open>a\<close> in their ascending
  order, and the page gives \<open>a\<close> before \<open>b\<close> in its descending order: on every path
  the two stand against the order of their identifiers.
\<close>

theorem read_paths_ignore_identifier:
  "displayed_messages [ex_tie_b, ex_tie_a] = [ex_tie_b, ex_tie_a] \<and>
   \<not> spec_ordered (displayed_messages [ex_tie_b, ex_tie_a]) \<and>
   history_rows \<lparr>conversations = [ex_conversation], messages = [ex_tie_b, ex_tie_a]\<rparr> ''c1''
     = [ex_tie_b, ex_tie_a] \<and>
   \<not> spec_ordered (history_rows \<lparr>conversations = [ex_conversation], messages = [ex_tie_b, ex_tie_a]\<rparr> ''c1'') \<and>
   get_conversation (\<lambda>t. []) \<lparr>conversations = [ex_conversation], messages = [ex_tie_b, ex_tie_a]\<rparr>
       ''c1'' None None
     = GetOk ex_conversation (createCursorPagination (\<lambda>t. []) [ex_tie_a, ex_tie_b] 20) \<and>
   items (createCursorPagination (\<lambda>t. []) [ex_tie_a, ex_tie_b] 20) = [ex_tie_a, ex_tie_b] \<and>
   \<not> spec_ordered (rev [ex_tie_a, ex_tie_b])"
proof -
  have c: "conv_id ex_conversation = ''c1''" by (simp add: ex_conversation_def)
  have f: "message_findMany_page \<lparr>conversations = [ex_conversation], messages = [ex_tie_b, ex_tie_a]\<rparr> ''c1''
       \<lparr>q_take = 21, q_cursor = None\<rparr> = Inr [ex_tie_a, ex_tie_b]"
    by (simp add: message_findMany_page_def orderBy_createdAt_desc_def ex_tie_a_def ex_tie_b_def)
  have g: "get_conversation (\<lambda>t. []) \<lparr>conversations = [ex_conversation], messages = [ex_tie_b, ex_tie_a]\<rparr>
       ''c1'' None None
     = GetOk ex_conversation (createCursorPagination (\<lambda>t. []) [ex_tie_a, ex_tie_b] 20)"
    using f by (simp add: get_conversation_def conversation_findUnique_def buildPaginationQuery_def c)
  have i: "items (createCursorPagination (\<lambda>t. []) [ex_tie_a, ex_tie_b] 20) = [ex_tie_a, ex_tie_b]"
    by (simp add: createCursorPagination_def)
  have h: "displayed_messages [ex_tie_b, ex_tie_a] = [ex_tie_b, ex_tie_a] \<and>
     history_rows \<lparr>conversations = [ex_conversation], messages = [ex_tie_b, ex_tie_a]\<rparr> ''c1''
       = [ex_tie_b, ex_tie_a]"
    by (simp add: displayed_messages_def history_rows_def orderBy_createdAt_asc_def
        ex_tie_a_def ex_tie_b_def)
  have o: "\<not> spec_ordered [ex_tie_b, ex_tie_a]"
    by (simp add: spec_ordered_def ex_tie_a_def ex_tie_b_def)
  show ?thesis using g i h o by simp
qed

text \<open>
  Claim C9, amended. Every read path orders by the creation timestamp alone. The history
  holds exactly the conversation's messages, in ascending order of the timestamp; the
  client's list holds exactly its cached items, in ascending order of the timestamp;
  every read of the page query and every page answered, with or without a cursor, is a
  run of consecutive rows of the conversation's descending read, so in descending order
  of the timestamp. The identifier takes no part in any of the orders.
\<close>

theorem read_paths_ordered_by_timestamp:
  "sorted (map createdAt (history_rows s cid)) \<and>
   mset (history_rows s cid) = mset (filter (\<lambda>m. conversationId m = cid) (messages s)) \<and>
   sorted (map createdAt (displayed_messages cached)) \<and>
   mset (displayed_messages cached) = mset cached \<and>
   (message_findMany_page s cid q = Inr rows \<longrightarrow>
      sorted_wrt (\<lambda>a b. createdAt b \<le> createdAt a) rows \<and>
      (\<exists>k n. rows = take n (drop k (orderBy_createdAt_desc
                 (filter (\<lambda>m. conversationId m = cid) (messages s)))))) \<and>
   (get_conversation toISOString s cid cursor limit_param = GetOk c p \<longrightarrow>
      sorted_wrt (\<lambda>a b. createdAt b \<le> createdAt a) (items p) \<and>
      (\<exists>k n. items p = take n (drop k (orderBy_createdAt_desc
                 (filter (\<lambda>m. conversationId m = cid) (messages s))))))"
proof -
  have h: "sorted (map createdAt (history_rows s cid)) \<and>
     mset (history_rows s cid) = mset (filter (\<lambda>m. conversationId m = cid) (messages s))"
    by (simp add: history_rows_def orderBy_createdAt_asc_def)
  have d: "sorted (map createdAt (displayed_messages cached)) \<and>
     mset (displayed_messages cached) = mset cached"
    by (simp add: displayed_messages_def)
  have r: "sorted_wrt (\<lambda>a b. createdAt b \<le> createdAt a) rows \<and>
      (\<exists>k n. rows = take n (drop k (orderBy_createdAt_desc
                 (filter (\<lambda>m. conversationId m = cid) (messages s)))))"
    if "message_findMany_page s cid q = Inr rows"
    using findMany_page_run[OF that] run_sorted by blast
  have g: "sorted_wrt (\<lambda>a b. createdAt b \<le> createdAt a) (items p) \<and>
      (\<exists>k n. items p = take n (drop k (orderBy_createdAt_desc
                 (filter (\<lambda>m. conversationId m = cid) (messages s)))))"
    if "get_conversation toISOString s cid cursor limit_param = GetOk c p"
    using get_conversation_run[OF that] run_sorted by blast
  show ?thesis using h d r g by blast
qed

theorem read_paths_ordered_by_timestamp_witness:
  "get_conversation (\<lambda>t. []) \<lparr>conversations = [ex_conversation], messages = [ex_tie_a, ex_user_message]\<rparr>
       ''c1'' None None
     = GetOk ex_conversation (createCursorPagination (\<lambda>t. []) [ex_user_message, ex_tie_a] 20) \<and>
   items (createCursorPagination (\<lambda>t. []) [ex_user_message, ex_tie_a] 20) = [ex_user_message, ex_tie_a] \<and>
   createdAt ex_tie_a \<le> createdAt ex_user_message \<and>
   message_findMany_page \<lparr>conversations = [ex_conversation], messages = [ex_tie_a, ex_user_message]\<rparr>
       ''c1'' \<lparr>q_take = 21, q_cursor = None\<rparr> = Inr [ex_user_message, ex_tie_a]"
proof -
  let ?s = "\<lparr>conversations = [ex_conversation], messages = [ex_tie_a, ex_user_message]\<rparr>"
  have f: "message_findMany_page ?s ''c1'' \<lparr>q_take = 21, q_cursor = None\<rparr> = Inr [ex_user_message, ex_tie_a]"
    by (simp add: message_findMany_page_def orderBy_createdAt_desc_def ex_tie_a_def ex_user_message_def)
  have conv_id_ex: "conv_id ex_conversation = ''c1''" by (simp add: ex_conversation_def)
  have g: "get_conversation (\<lambda>t. []) ?s ''c1'' None None
     = GetOk ex_conversation (createCursorPagination (\<lambda>t. []) [ex_user_message, ex_tie_a] 20)"
    using f by (simp add: get_conversation_def conversation_findUnique_def buildPaginationQuery_def
        conv_id_ex)
  have i: "items (createCursorPagination (\<lambda>t. []) [ex_user_message, ex_tie_a] 20) = [ex_user_message, ex_tie_a]"
    by (simp add: createCursorPagination_def)
  have t: "sorted_wrt (\<lambda>a b. createdAt b \<le> createdAt a) [ex_user_message, ex_tie_a]
      \<longleftrightarrow> createdAt ex_tie_a \<le> createdAt ex_user_message"
    by simp
  from read_paths_ordered_by_timestamp[of ?s "''c1''" "[]" "\<lparr>q_take = 21, q_cursor = None\<rparr>"
        "[ex_user_message, ex_tie_a]" "\<lambda>t. []" None None ex_conversation
        "createCursorPagination (\<lambda>t. []) [ex_user_message, ex_tie_a] 20"]
  have "sorted_wrt (\<lambda>a b. createdAt b \<le> createdAt a) [ex_user_message, ex_tie_a]"
    using f by blast
  then show ?thesis using f g i t by simp
qed

end
